theory Spec2Isabelle
  imports Complex_Main
begin

section \<open>Numeric model\<close>

text \<open>
  The program computes on numpy arrays of IEEE doubles. A finite double is idealised as a
  real number: rounding, underflow and overflow are not part of this model. An array is
  a list. Where the source can raise, the model returns \<open>Inl\<close> of the error.

  Where numpy divides by a value that can be zero it does not raise: it produces an
  infinity or a NaN and goes on. The values that flow out of such a division are of
  type \<open>fl\<close>: a real, one of the two infinities, or NaN, with the IEEE rules for the
  special values (signed zeros are not distinguished: a nonzero value divided by zero
  takes the sign of the dividend).
\<close>

datatype error = IndexError | ValueError | ZeroDivisionError | RuntimeError string

datatype fl = Fin real | PInf | NInf | NaN

fun is_finite :: "fl \<Rightarrow> bool" where
  "is_finite (Fin r) = True"
| "is_finite PInf = False"
| "is_finite NInf = False"
| "is_finite NaN = False"

fun fl_neg :: "fl \<Rightarrow> fl" where
  "fl_neg (Fin r) = Fin (- r)"
| "fl_neg PInf = NInf"
| "fl_neg NInf = PInf"
| "fl_neg NaN = NaN"

fun fl_add :: "fl \<Rightarrow> fl \<Rightarrow> fl" where
  "fl_add (Fin a) (Fin b) = Fin (a + b)"
| "fl_add (Fin a) PInf = PInf"
| "fl_add (Fin a) NInf = NInf"
| "fl_add (Fin a) NaN = NaN"
| "fl_add PInf (Fin b) = PInf"
| "fl_add PInf PInf = PInf"
| "fl_add PInf NInf = NaN"
| "fl_add PInf NaN = NaN"
| "fl_add NInf (Fin b) = NInf"
| "fl_add NInf PInf = NaN"
| "fl_add NInf NInf = NInf"
| "fl_add NInf NaN = NaN"
| "fl_add NaN b = NaN"

definition fl_sub :: "fl \<Rightarrow> fl \<Rightarrow> fl" where
  "fl_sub a b = fl_add a (fl_neg b)"

text \<open>An infinity times a finite value: zero gives NaN, otherwise the signs multiply.\<close>

definition inf_times :: "bool \<Rightarrow> real \<Rightarrow> fl" where
  "inf_times positive r =
     (if r = 0 then NaN else if (0 < r) = positive then PInf else NInf)"

fun fl_mul :: "fl \<Rightarrow> fl \<Rightarrow> fl" where
  "fl_mul (Fin a) (Fin b) = Fin (a * b)"
| "fl_mul (Fin a) PInf = inf_times True a"
| "fl_mul (Fin a) NInf = inf_times False a"
| "fl_mul (Fin a) NaN = NaN"
| "fl_mul PInf (Fin b) = inf_times True b"
| "fl_mul PInf PInf = PInf"
| "fl_mul PInf NInf = NInf"
| "fl_mul PInf NaN = NaN"
| "fl_mul NInf (Fin b) = inf_times False b"
| "fl_mul NInf PInf = NInf"
| "fl_mul NInf NInf = PInf"
| "fl_mul NInf NaN = NaN"
| "fl_mul NaN b = NaN"

text \<open>
  Division of two reals as numpy does it: \<open>0/0\<close> is NaN and a nonzero value over zero
  is an infinity; nothing is raised.
\<close>

definition np_div :: "real \<Rightarrow> real \<Rightarrow> fl" where
  "np_div a b =
     (if b = 0 then (if a = 0 then NaN else if 0 < a then PInf else NInf)
      else Fin (a / b))"

fun fl_div :: "fl \<Rightarrow> fl \<Rightarrow> fl" where
  "fl_div (Fin a) (Fin b) = np_div a b"
| "fl_div (Fin a) PInf = Fin 0"
| "fl_div (Fin a) NInf = Fin 0"
| "fl_div (Fin a) NaN = NaN"
| "fl_div PInf (Fin b) = (if 0 \<le> b then PInf else NInf)"
| "fl_div PInf PInf = NaN"
| "fl_div PInf NInf = NaN"
| "fl_div PInf NaN = NaN"
| "fl_div NInf (Fin b) = (if 0 \<le> b then NInf else PInf)"
| "fl_div NInf PInf = NaN"
| "fl_div NInf NInf = NaN"
| "fl_div NInf NaN = NaN"
| "fl_div NaN b = NaN"

fun fl_abs :: "fl \<Rightarrow> fl" where
  "fl_abs (Fin r) = Fin \<bar>r\<bar>"
| "fl_abs PInf = PInf"
| "fl_abs NInf = PInf"
| "fl_abs NaN = NaN"

text \<open>The comparison \<open>a >= b\<close>: false as soon as one side is NaN.\<close>

fun fl_ge :: "fl \<Rightarrow> fl \<Rightarrow> bool" where
  "fl_ge (Fin a) (Fin b) = (b \<le> a)"
| "fl_ge (Fin a) PInf = False"
| "fl_ge (Fin a) NInf = True"
| "fl_ge (Fin a) NaN = False"
| "fl_ge PInf (Fin b) = True"
| "fl_ge PInf PInf = True"
| "fl_ge PInf NInf = True"
| "fl_ge PInf NaN = False"
| "fl_ge NInf (Fin b) = False"
| "fl_ge NInf PInf = False"
| "fl_ge NInf NInf = True"
| "fl_ge NInf NaN = False"
| "fl_ge NaN b = False"

text \<open>The comparison \<open>a < b\<close>, also false on NaN.\<close>

definition fl_lt :: "fl \<Rightarrow> fl \<Rightarrow> bool" where
  "fl_lt a b = (a \<noteq> NaN \<and> b \<noteq> NaN \<and> \<not> fl_ge a b)"

subsection \<open>Boolean masks\<close>

text \<open>
  \<open>a[mask]\<close> selects the entries of \<open>a\<close> where the mask holds, in order;
  \<open>a[mask] = v\<close> overwrites them with the scalar \<open>v\<close>; \<open>a[mask] = vs\<close> overwrites
  them, in order, with the entries of the array \<open>vs\<close>. The masks of the source are
  computed from an array of the same length as \<open>a\<close>.
\<close>

fun select_mask :: "'a list \<Rightarrow> bool list \<Rightarrow> 'a list" where
  "select_mask (a # as) (m # ms) = (if m then a # select_mask as ms else select_mask as ms)"
| "select_mask as ms = []"

fun fill_mask :: "'a list \<Rightarrow> bool list \<Rightarrow> 'a \<Rightarrow> 'a list" where
  "fill_mask (a # as) (m # ms) v = (if m then v else a) # fill_mask as ms v"
| "fill_mask as ms v = as"

fun put_mask :: "'a list \<Rightarrow> bool list \<Rightarrow> 'a list \<Rightarrow> 'a list" where
  "put_mask (a # as) (True # ms) (v # vs) = v # put_mask as ms vs"
| "put_mask (a # as) (False # ms) vs = a # put_mask as ms vs"
| "put_mask as ms vs = as"

definition zeros :: "nat \<Rightarrow> real list" where
  "zeros n = replicate n 0"

section \<open>Pulse models (pulsemodels.py)\<close>

text \<open>
  The models take the time axis \<open>x\<close> and the pulse parameters and return the profile.
  \<open>scipy.special.erfc\<close> is a library function, the complementary error function:
  \<open>special_erfc\<close> is its value as a real, one minus the Maclaurin series of the
  error function. The scalar divisions \<open>1.0 / sigma\<close> and \<open>1.0 / K\<close> are modelled by the
  division of the reals, which is the source's value for \<open>sigma \<noteq> 0\<close> and
  \<open>taus \<noteq> 0\<close>; for a zero divisor see \<open>scattered_gaussian_pulse_py\<close> below.
\<close>

definition special_erfc :: "real \<Rightarrow> real" where
  "special_erfc t =
     1 - 2 / sqrt pi * (\<Sum>n. (- 1) ^ n * t ^ (2 * n + 1) / (fact n * real (2 * n + 1)))"

definition gaussian_normed :: "real list \<Rightarrow> real \<Rightarrow> real \<Rightarrow> real \<Rightarrow> real list" where
  "gaussian_normed x fluence center sigma =
     map (\<lambda>xi. fluence / (sigma * sqrt (2 * pi)) * exp (- 0.5 * ((xi - center) / sigma)\<^sup>2)) x"

definition scattered_gaussian_pulse ::
  "real list \<Rightarrow> real \<Rightarrow> real \<Rightarrow> real \<Rightarrow> real \<Rightarrow> real \<Rightarrow> real list" where
  "scattered_gaussian_pulse x fluence center sigma taus dc =
     (let invsigma = 1 / sigma;
          K = taus * invsigma;
          invK = 1 / K;
          y = map (\<lambda>xi. (xi - center) * invsigma) x
      in if invK \<ge> 10 then map (\<lambda>g. dc + g) (gaussian_normed x fluence center sigma)
         else
           let argexp = map (\<lambda>yi. 0.5 * invK\<^sup>2 - yi * invK) y;
               mask = map (\<lambda>a. a \<ge> 300) argexp;
               argexp = fill_mask argexp mask 0;
               exgaussian =
                 map2 (\<lambda>a yi. 0.5 * invK * invsigma * exp a * special_erfc (- (yi - invK) / sqrt 2))
                   argexp y
           in map (\<lambda>e. dc + fluence * e) exgaussian)"

text \<open>
  Array arithmetic on values of type \<open>fl\<close>, element by element, and the sum of an array.
\<close>

definition arr_add :: "fl list \<Rightarrow> fl list \<Rightarrow> fl list" where
  "arr_add a b = map2 fl_add a b"

definition arr_sub :: "fl list \<Rightarrow> fl list \<Rightarrow> fl list" where
  "arr_sub a b = map2 fl_sub a b"

definition fl_sum :: "fl list \<Rightarrow> fl" where
  "fl_sum a = foldl fl_add (Fin 0) a"

text \<open>
  The analogue-instrumental model is called with Python floats for \<open>sigma\<close> and the
  three timescales and hands them on to the analytic scattered Gaussian, where the
  scalar divisions \<open>1.0 / sigma\<close> and \<open>1.0 / K\<close> raise ZeroDivisionError on a zero
  divisor. \<open>scattered_gaussian_pulse_py\<close> is that call: the first division fails for
  \<open>sigma = 0\<close>, the second one for \<open>K = taus * invsigma = 0\<close>; where neither fails the
  value is \<open>scattered_gaussian_pulse\<close>.
\<close>

definition scattered_gaussian_pulse_py ::
  "real list \<Rightarrow> real \<Rightarrow> real \<Rightarrow> real \<Rightarrow> real \<Rightarrow> real \<Rightarrow> error + real list" where
  "scattered_gaussian_pulse_py x fluence center sigma taus dc =
     (if sigma = 0 then Inl ZeroDivisionError
      else
        let invsigma = 1 / sigma;
            K = taus * invsigma
        in if K = 0 then Inl ZeroDivisionError
           else Inr (scattered_gaussian_pulse x fluence center sigma taus dc))"

text \<open>
  The three quotients of the model divide an array by a scalar that is zero when two of
  the timescales coincide; numpy then yields infinities or NaNs and raises nothing, so
  the result is an array of \<open>fl\<close>. An error of one of the three calls of the scattered
  Gaussian ends the function. The source's \<open>dc + A - B + C\<close> associates to the left.
\<close>

definition gaussian_scattered_afb_instrumental ::
  "real list \<Rightarrow> real \<Rightarrow> real \<Rightarrow> real \<Rightarrow> real \<Rightarrow> real \<Rightarrow> real \<Rightarrow> real \<Rightarrow> error + fl list" where
  "gaussian_scattered_afb_instrumental x fluence center sigma taus taui taud dc =
     (case scattered_gaussian_pulse_py x fluence center sigma taus 0 of
        Inl e \<Rightarrow> Inl e
      | Inr Gs \<Rightarrow>
          let A = map (\<lambda>g. np_div (taus\<^sup>2 * g) ((taus - taui) * (taus - taud))) Gs
          in case scattered_gaussian_pulse_py x fluence center sigma taui 0 of
               Inl e \<Rightarrow> Inl e
             | Inr Gi \<Rightarrow>
                 let B = map (\<lambda>g. np_div (taui\<^sup>2 * g) ((taus - taui) * (taui - taud))) Gi
                 in case scattered_gaussian_pulse_py x fluence center sigma taud 0 of
                      Inl e \<Rightarrow> Inl e
                    | Inr Gd \<Rightarrow>
                        let C = map (\<lambda>g. np_div (taud\<^sup>2 * g)
                                            ((taus - taud) * (taui - taud))) Gd
                        in Inr (arr_add (arr_sub (map (fl_add (Fin dc)) A) B) C))"

text \<open>The samples of the model, where the three calls return.\<close>

definition afb_samples ::
  "real list \<Rightarrow> real \<Rightarrow> real \<Rightarrow> real \<Rightarrow> real \<Rightarrow> real \<Rightarrow> real \<Rightarrow> real \<Rightarrow> fl list" where
  "afb_samples x fluence center sigma taus taui taud dc =
     arr_add (arr_sub (map (fl_add (Fin dc))
         (map (\<lambda>g. np_div (taus\<^sup>2 * g) ((taus - taui) * (taus - taud)))
            (scattered_gaussian_pulse x fluence center sigma taus 0)))
         (map (\<lambda>g. np_div (taui\<^sup>2 * g) ((taus - taui) * (taui - taud)))
            (scattered_gaussian_pulse x fluence center sigma taui 0)))
       (map (\<lambda>g. np_div (taud\<^sup>2 * g) ((taus - taud) * (taui - taud)))
          (scattered_gaussian_pulse x fluence center sigma taud 0))"

definition boxcar :: "real list \<Rightarrow> real \<Rightarrow> real list" where
  "boxcar x width =
     (let res = zeros (length x);
          mask = map (\<lambda>xi. \<bar>xi\<bar> \<le> 0.5 * width) x
      in fill_mask res mask 1)"

definition gaussian_fwhm :: "real \<Rightarrow> real" where
  "gaussian_fwhm sigma = 2 * sqrt (2 * ln 2) * sigma"

definition gaussian_fwtm :: "real \<Rightarrow> real" where
  "gaussian_fwtm sigma = 2 * sqrt (2 * ln 10) * sigma"

text \<open>\<open>np.max\<close> of an array of reals: it raises ValueError on an empty array.\<close>

fun np_max :: "real list \<Rightarrow> error + real" where
  "np_max [] = Inl ValueError"
| "np_max (a # as) = Inr (fold max as a)"

text \<open>
  The equivalent width. \<open>x[0]\<close> and \<open>x[1]\<close> raise IndexError on a time axis of fewer
  than two samples; the last division is numpy's, by a maximum that can be zero.
\<close>

definition equivalent_width :: "real list \<Rightarrow> real list \<Rightarrow> error + fl" where
  "equivalent_width x amp =
     (let mask = map (\<lambda>a. a \<ge> 0) amp;
          total = sum_list (select_mask amp mask)
      in if length x < 2 then Inl IndexError
         else
           let fluxsum = total * \<bar>x ! 0 - x ! 1\<bar>
           in case np_max amp of
                Inl e \<Rightarrow> Inl e
              | Inr m \<Rightarrow> Inr (np_div fluxsum m))"

definition pbf_isotropic :: "real list \<Rightarrow> real \<Rightarrow> real list" where
  "pbf_isotropic x taus =
     (let res = zeros (length x);
          invtaus = 1 / taus;
          mask = map (\<lambda>xi. xi \<ge> 0) x
      in put_mask res mask (map (\<lambda>xi. invtaus * exp (- xi * invtaus)) (select_mask x mask)))"

text \<open>
  \<open>scipy.signal.oaconvolve(a, b, mode="same")\<close> is a library function. It computes the
  full linear convolution of the two arrays, of length \<open>len(a) + len(b) - 1\<close> (by
  overlap-add; the model takes its exact value), and returns the centred part of the
  length of \<open>a\<close>, which starts at index \<open>(len(full) - len(a)) // 2\<close>.
\<close>

definition convolve_full :: "real list \<Rightarrow> real list \<Rightarrow> real list" where
  "convolve_full a b =
     (if a = [] \<or> b = [] then []
      else map (\<lambda>m. \<Sum>j\<leftarrow>[0..<length a].
                         if j \<le> m \<and> m - j < length b then a ! j * b ! (m - j) else 0)
             [0..<length a + length b - 1])"

definition oaconvolve_same :: "real list \<Rightarrow> real list \<Rightarrow> real list" where
  "oaconvolve_same a b =
     (let full = convolve_full a b;
          startind = (length full - length a) div 2
      in take (length a) (drop startind full))"

text \<open>
  The convolved profile divides by \<open>np.sum(B)\<close>, which is zero when no sample of the
  time axis is at or after zero: the result is an array of \<open>fl\<close>.
\<close>

definition scattered_profile ::
  "real list \<Rightarrow> real \<Rightarrow> real \<Rightarrow> real \<Rightarrow> real \<Rightarrow> real \<Rightarrow> fl list" where
  "scattered_profile x fluence center sigma taus dc =
     (let A = gaussian_normed x fluence center sigma;
          B = pbf_isotropic x taus
      in map (\<lambda>c. fl_add (Fin dc) (np_div c (sum_list B))) (oaconvolve_same A B))"

text \<open>
  \<open>np.geomspace(start, stop, num)\<close>: \<open>num\<close> points from \<open>start\<close> to \<open>stop\<close> with a
  constant ratio; a single point is \<open>start\<close>. The band frequencies are positive, so the
  powers of numpy are \<open>powr\<close>.
\<close>

definition geomspace :: "real \<Rightarrow> real \<Rightarrow> nat \<Rightarrow> real list" where
  "geomspace start stop num =
     (if num = 1 then [start]
      else map (\<lambda>i. start * (stop / start) powr (real i / real (num - 1))) [0..<num])"

text \<open>\<open>np.sum(profiles, axis=0)\<close> for rows of length \<open>n\<close>: the sums of the columns.\<close>

definition sum_axis0 :: "nat \<Rightarrow> real list list \<Rightarrow> real list" where
  "sum_axis0 n rows = map (\<lambda>k. \<Sum>r\<leftarrow>rows. r ! k) [0..<n]"

text \<open>
  The band-integration model, in two parts: \<open>bandintegrated_sum\<close> is the body of the
  source's function up to \<open>res = np.sum(profiles, axis=0)\<close>, the sum of the profiles of
  the \<open>nfreq\<close> centre frequencies; \<open>bandintegrated_model\<close> is the function. \<open>x[0]\<close> and
  \<open>x[1]\<close> raise IndexError on a time axis of fewer than two samples, and the division by
  \<open>tot_fluence\<close> is numpy's.
\<close>

definition bandintegrated_sum ::
  "real list \<Rightarrow> real \<Rightarrow> real \<Rightarrow> real \<Rightarrow> real \<Rightarrow> real \<Rightarrow> real \<Rightarrow> nat \<Rightarrow> real list" where
  "bandintegrated_sum x fluence center sigma taus f_lo f_hi nfreq =
     (let band_cfreq = 0.5 * (f_lo + f_hi);
          cfreqs = geomspace f_lo f_hi nfreq;
          taus_s = map (\<lambda>c. taus * (c / band_cfreq) powr (- 4)) cfreqs;
          fluence_s = map (\<lambda>c. fluence * (c / band_cfreq) powr (- 1.5)) cfreqs;
          profiles = map (\<lambda>i. scattered_gaussian_pulse x (fluence_s ! i) center sigma
                                 (taus_s ! i) 0) [0..<nfreq]
      in sum_axis0 (length x) profiles)"

definition bandintegrated_model ::
  "real list \<Rightarrow> real \<Rightarrow> real \<Rightarrow> real \<Rightarrow> real \<Rightarrow> real \<Rightarrow> real \<Rightarrow> real \<Rightarrow> nat \<Rightarrow> error + fl list" where
  "bandintegrated_model x fluence center sigma taus dc f_lo f_hi nfreq =
     (let res = bandintegrated_sum x fluence center sigma taus f_lo f_hi nfreq
      in if length x < 2 then Inl IndexError
         else
           let tot_fluence = sum_list res * \<bar>x ! 0 - x ! 1\<bar>
           in Inr (map (\<lambda>r. fl_add (Fin dc) (fl_mul (np_div fluence tot_fluence) (Fin r))) res))"

section \<open>The fit of the sub-bands (apps/fit\_frb.py)\<close>

subsection \<open>numpy reductions on arrays with special values\<close>

text \<open>
  \<open>np.max\<close> propagates NaN and raises ValueError on an empty array; \<open>np.mean\<close> is the
  sum over the number of samples (NaN, with a warning, on an empty array).
\<close>

definition fl_max2 :: "fl \<Rightarrow> fl \<Rightarrow> fl" where
  "fl_max2 a b = (if a = NaN \<or> b = NaN then NaN else if fl_ge a b then a else b)"

fun fl_amax :: "fl list \<Rightarrow> error + fl" where
  "fl_amax [] = Inl ValueError"
| "fl_amax (a # as) = Inr (fold fl_max2 as a)"

definition np_mean :: "fl list \<Rightarrow> fl" where
  "np_mean a = fl_div (fl_sum a) (Fin (real (length a)))"

text \<open>
  \<open>np.quantile(a, q)\<close> with the default linear interpolation. The samples are sorted,
  NaN last; if the last one is NaN the quantile is NaN. Otherwise the quantile is
  interpolated between the two samples around the virtual index \<open>(n - 1) * q\<close>:
  numpy's \<open>_lerp\<close> computes \<open>a + (b - a) * t\<close>, and \<open>b - (b - a) * (1 - t)\<close> for
  \<open>t >= 0.5\<close>. On an empty array numpy raises.
\<close>

definition sorts_before :: "fl \<Rightarrow> fl \<Rightarrow> bool" where
  "sorts_before a b = (b = NaN \<or> (a \<noteq> NaN \<and> fl_ge b a))"

fun fl_insort :: "fl \<Rightarrow> fl list \<Rightarrow> fl list" where
  "fl_insort a [] = [a]"
| "fl_insort a (b # bs) = (if sorts_before a b then a # b # bs else b # fl_insort a bs)"

definition fl_sort :: "fl list \<Rightarrow> fl list" where
  "fl_sort a = foldr fl_insort a []"

definition lerp :: "fl \<Rightarrow> fl \<Rightarrow> real \<Rightarrow> fl" where
  "lerp a b t =
     (if t \<ge> 0.5 then fl_sub b (fl_mul (fl_sub b a) (Fin (1 - t)))
      else fl_add a (fl_mul (fl_sub b a) (Fin t)))"

definition np_quantile :: "fl list \<Rightarrow> real \<Rightarrow> error + fl" where
  "np_quantile a q =
     (if a = [] then Inl IndexError
      else
        let n = length a;
            s = fl_sort a
        in if last s = NaN then Inr NaN
           else
             let virtual_index = real (n - 1) * q;
                 previous_index = nat \<lfloor>virtual_index\<rfloor>;
                 next_index = min (previous_index + 1) (n - 1);
                 gamma = virtual_index - real previous_index
             in Inr (lerp (s ! previous_index) (s ! next_index) gamma))"

subsection \<open>Data\<close>

text \<open>
  The candidate carries the channel frequencies, the dedispersed data (transposed: one
  profile per sub-band) and the dispersion measure. The fitter of lmfit is external: the
  least-squares fit returns a result with a success flag and the fitted parameters, the
  emcee fit returns the result the table is filled from. \<open>get_dm_smearing\<close> is the
  function of \<open>scatfit.dm\<close>, whose source is not part of the files at hand; the fit
  passes its value on to the fitter and nothing else depends on it. The three are
  parameters of the model.
\<close>

record candidate =
  chan_freqs :: "real list"
  dedispersed_T :: "fl list list"
  dm :: real

record ml_result =
  success :: bool
  params :: "(string \<times> real) list"

record fit_result =
  best_fit :: "real list"
  best_fluence :: real
  best_sigma :: real
  best_taus :: real
  best_taud :: real
  stderr_fluence :: real
  stderr_sigma :: real
  stderr_taus :: real

record externals =
  leastsq :: "real list \<Rightarrow> fl list \<Rightarrow> real \<Rightarrow> ml_result"
  emcee :: "real list \<Rightarrow> fl list \<Rightarrow> ml_result \<Rightarrow> fit_result"
  get_dm_smearing :: "real \<Rightarrow> real \<Rightarrow> real \<Rightarrow> real"

text \<open>
  A row of the result table as the loop appends it, and the row of the returned table,
  which has the four width columns as well.
\<close>

record band_row =
  band_col :: nat
  cfreq_col :: real
  fluence_col :: real
  err_fluence_col :: real
  sigma_col :: real
  err_sigma_col :: real
  taus_col :: real
  err_taus_col :: real
  taud_col :: real
  fluxsum_col :: real
  weq_col :: fl

record result_row =
  fitted :: band_row
  fwhm_col :: real
  err_fwhm_col :: real
  fwtm_col :: real
  err_fwtm_col :: real

text \<open>
  What the run does besides computing: the notices of the loop and the calls of the
  fitter, in order. A function that can raise returns the trace next to its result, so
  that the trace of an aborted run is kept.
\<close>

datatype event =
  Running nat
| Notice_snr fl
| Notice_too_low fl
| Leastsq_fit
| Emcee_fit

subsection \<open>fit\_profile\_model\<close>

definition fit_profile_model ::
  "externals \<Rightarrow> real list \<Rightarrow> fl list \<Rightarrow> real \<Rightarrow> event list \<Rightarrow> (error + fit_result) \<times> event list" where
  "fit_profile_model ext fit_range profile dm_smear trace =
     (let fitresult_ml = leastsq ext fit_range profile dm_smear;
          trace = trace @ [Leastsq_fit]
      in if \<not> success fitresult_ml then (Inl (RuntimeError ''Fit did not converge.''), trace)
         else (Inr (emcee ext fit_range profile fitresult_ml), trace @ [Emcee_fit]))"

subsection \<open>fit\_profile\<close>

text \<open>
  The body of the loop up to the signal-to-noise ratio: the window of 200 ms, the
  baseline and the normalisation, the noise from the quartiles outside 20 ms. A boolean
  mask of another length than the array raises IndexError. It returns the time axis of
  the window, the normalised profile and the S/N.
\<close>

definition band_snr :: "real list \<Rightarrow> fl list \<Rightarrow> error + (real list \<times> fl list \<times> fl)" where
  "band_snr plot_range sub_profile =
     (let mask = map (\<lambda>t. \<bar>t\<bar> \<le> 200) plot_range
      in if length sub_profile \<noteq> length plot_range then Inl IndexError
         else
           let fit_range = select_mask plot_range mask;
               sub_profile = select_mask sub_profile mask;
               mean = np_mean sub_profile;
               sub_profile = map (\<lambda>v. fl_sub v mean) sub_profile
           in case fl_amax sub_profile of
                Inl e \<Rightarrow> Inl e
              | Inr m \<Rightarrow>
                  let sub_profile = map (\<lambda>v. fl_div v m) sub_profile;
                      mask = map (\<lambda>t. \<bar>t\<bar> > 20) fit_range;
                      baseline = select_mask sub_profile mask
                  in case np_quantile baseline 0.25 of
                       Inl e \<Rightarrow> Inl e
                     | Inr q25 \<Rightarrow>
                        (case np_quantile baseline 0.75 of
                           Inl e \<Rightarrow> Inl e
                         | Inr q75 \<Rightarrow>
                             let std = fl_mul (Fin 0.7413) (fl_abs (fl_sub q75 q25))
                             in case fl_amax sub_profile of
                                  Inl e \<Rightarrow> Inl e
                                | Inr peak \<Rightarrow> Inr (fit_range, sub_profile, fl_div peak std)))"

text \<open>The centre frequency of a sub-band and the smearing handed to the fitter.\<close>

definition band_cfreq :: "candidate \<Rightarrow> real \<Rightarrow> real \<Rightarrow> nat \<Rightarrow> real" where
  "band_cfreq cand fscrunch_factor chan_bw iband =
     chan_freqs cand ! 0 + (0.5 + real iband) * fscrunch_factor * chan_bw"

definition band_dm_smear :: "externals \<Rightarrow> candidate \<Rightarrow> real \<Rightarrow> real \<Rightarrow> nat \<Rightarrow> real" where
  "band_dm_smear ext cand fscrunch_factor chan_bw iband =
     (let cfreq = band_cfreq cand fscrunch_factor chan_bw iband;
          f_lo = cfreq - 0.5 * \<bar>chan_bw\<bar>;
          f_hi = cfreq + 0.5 * \<bar>chan_bw\<bar>
      in get_dm_smearing ext (f_lo * 0.001) (f_hi * 0.001) (dm cand))"

text \<open>
  One pass of the loop body, for sub-band \<open>iband\<close>, from the table \<open>df\<close> and the trace so
  far. \<open>continue\<close> returns the table as it is.
\<close>

definition band_step ::
  "externals \<Rightarrow> candidate \<Rightarrow> real list \<Rightarrow> real \<Rightarrow> real \<Rightarrow> nat \<Rightarrow> band_row list \<Rightarrow> event list
     \<Rightarrow> (error + band_row list) \<times> event list" where
  "band_step ext cand plot_range fscrunch_factor chan_bw iband df trace =
     (let trace = trace @ [Running iband]
      in case band_snr plot_range (dedispersed_T cand ! iband) of
           Inl e \<Rightarrow> (Inl e, trace)
         | Inr (fit_range, sub_profile, snr) \<Rightarrow>
             let trace = trace @ [Notice_snr snr]
             in if \<not> fl_ge snr (Fin 3.7) then (Inr df, trace @ [Notice_too_low snr])
                else
                  let cfreq = band_cfreq cand fscrunch_factor chan_bw iband;
                      dm_smear = band_dm_smear ext cand fscrunch_factor chan_bw iband
                  in case fit_profile_model ext fit_range sub_profile dm_smear trace of
                       (Inl e, trace) \<Rightarrow> (Inl e, trace)
                     | (Inr fitresult, trace) \<Rightarrow>
                         let positive = select_mask (best_fit fitresult)
                                          (map (\<lambda>v. v \<ge> 0) (best_fit fitresult))
                         in if length fit_range < 2 then (Inl IndexError, trace)
                            else
                              let fluxsum = sum_list positive * \<bar>fit_range ! 1 - fit_range ! 0\<bar>
                              in case np_max (best_fit fitresult) of
                                   Inl e \<Rightarrow> (Inl e, trace)
                                 | Inr m \<Rightarrow>
                                     (Inr (df @
                                        [\<lparr>band_col = iband,
                                          cfreq_col = cfreq,
                                          fluence_col = best_fluence fitresult,
                                          err_fluence_col = stderr_fluence fitresult,
                                          sigma_col = best_sigma fitresult,
                                          err_sigma_col = stderr_sigma fitresult,
                                          taus_col = best_taus fitresult,
                                          err_taus_col = stderr_taus fitresult,
                                          taud_col = best_taud fitresult,
                                          fluxsum_col = fluxsum,
                                          weq_col = np_div fluxsum m\<rparr>]), trace))"

text \<open>The loop over the sub-bands: an error ends it, as the exception does.\<close>

fun bands_loop ::
  "externals \<Rightarrow> candidate \<Rightarrow> real list \<Rightarrow> real \<Rightarrow> real \<Rightarrow> nat list \<Rightarrow> band_row list \<Rightarrow> event list
     \<Rightarrow> (error + band_row list) \<times> event list" where
  "bands_loop ext cand plot_range fscrunch_factor chan_bw [] df trace = (Inr df, trace)"
| "bands_loop ext cand plot_range fscrunch_factor chan_bw (iband # rest) df trace =
     (case band_step ext cand plot_range fscrunch_factor chan_bw iband df trace of
        (Inl e, trace') \<Rightarrow> (Inl e, trace')
      | (Inr df', trace') \<Rightarrow> bands_loop ext cand plot_range fscrunch_factor chan_bw rest df' trace')"

text \<open>The width columns computed after the loop, row by row.\<close>

definition add_widths :: "band_row \<Rightarrow> result_row" where
  "add_widths r =
     \<lparr>fitted = r,
      fwhm_col = gaussian_fwhm (sigma_col r),
      err_fwhm_col = gaussian_fwhm (err_sigma_col r),
      fwtm_col = gaussian_fwtm (sigma_col r),
      err_fwtm_col = gaussian_fwtm (err_sigma_col r)\<rparr>"

text \<open>
  \<open>fit_profile\<close>: \<open>np.diff(freqs)[0]\<close> raises IndexError for fewer than two channel
  frequencies; then the loop over the sub-bands, then the width columns.
\<close>

definition fit_profile ::
  "externals \<Rightarrow> candidate \<Rightarrow> real list \<Rightarrow> real \<Rightarrow> (error + result_row list) \<times> event list" where
  "fit_profile ext cand plot_range fscrunch_factor =
     (let freqs = chan_freqs cand
      in if length freqs < 2 then (Inl IndexError, [])
         else
           let chan_bw = freqs ! 1 - freqs ! 0
           in case bands_loop ext cand plot_range fscrunch_factor chan_bw
                     [0..<length (dedispersed_T cand)] [] [] of
                (Inl e, trace) \<Rightarrow> (Inl e, trace)
              | (Inr df, trace) \<Rightarrow> (Inr (map add_widths df), trace))"

subsection \<open>Example inputs\<close>

text \<open>
  A time axis of five samples and a candidate of three sub-bands on it: a strong pulse, a
  band that is zero throughout (a masked band) and a weak pulse. One fitter never
  converges; the other one always does and returns a flat best fit on the time axis it
  is given.
\<close>

definition example_range :: "real list" where
  "example_range = [- 30, - 25, 0, 25, 30]"

definition example_cand :: candidate where
  "example_cand =
     \<lparr>chan_freqs = [1400, 1401],
      dedispersed_T =
        [[Fin 0, Fin 1, Fin 10, Fin 0, Fin 1],
         [Fin 0, Fin 0, Fin 0, Fin 0, Fin 0],
         [Fin 0, Fin 4, Fin 6, Fin 0, Fin 4]],
      dm = 100\<rparr>"

definition flat_fit :: "real list \<Rightarrow> fit_result" where
  "flat_fit x =
     \<lparr>best_fit = map (\<lambda>t. 1) x,
      best_fluence = 5, best_sigma = 1, best_taus = 1 / 2, best_taud = 0,
      stderr_fluence = 1 / 10, stderr_sigma = 1 / 10, stderr_taus = 1 / 10\<rparr>"

definition diverging_fitter :: externals where
  "diverging_fitter =
     \<lparr>leastsq = (\<lambda>x data taud. \<lparr>success = False, params = []\<rparr>),
      emcee = (\<lambda>x data ml. flat_fit x),
      get_dm_smearing = (\<lambda>lo hi d. 0)\<rparr>"

definition converging_fitter :: externals where
  "converging_fitter =
     \<lparr>leastsq = (\<lambda>x data taud. \<lparr>success = True, params = []\<rparr>),
      emcee = (\<lambda>x data ml. flat_fit x),
      get_dm_smearing = (\<lambda>lo hi d. 0)\<rparr>"

text \<open>
  A candidate of one sub-band that is zero throughout, for a time axis of three samples
  that all lie within 20 ms of the burst.
\<close>

definition short_range :: "real list" where
  "short_range = [- 10, 0, 10]"

definition masked_cand :: candidate where
  "masked_cand =
     \<lparr>chan_freqs = [1400, 1401],
      dedispersed_T = [[Fin 0, Fin 0, Fin 0]],
      dm = 100\<rparr>"

text \<open>
  The row and the trace of the run of the converging fitter on the example: the first
  band is fitted, the other two are skipped.
\<close>

definition example_row :: band_row where
  "example_row =
     \<lparr>band_col = 0, cfreq_col = 1528, fluence_col = 5, err_fluence_col = 1 / 10,
      sigma_col = 1, err_sigma_col = 1 / 10, taus_col = 1 / 2, err_taus_col = 1 / 10,
      taud_col = 0, fluxsum_col = 25, weq_col = Fin 25\<rparr>"

definition example_trace :: "event list" where
  "example_trace =
     [Running 0, Notice_snr (Fin (76000 / 7413)), Leastsq_fit, Emcee_fit,
      Running 1, Notice_snr NaN, Notice_too_low NaN,
      Running 2, Notice_snr (Fin (8000 / 7413)), Notice_too_low (Fin (8000 / 7413))]"

section \<open>Properties of the pulse models\<close>

subsection \<open>The analytic scattered Gaussian\<close>

lemma length_fill_mask: "length (fill_mask as ms v) = length as"
  by (induction as ms v rule: fill_mask.induct) simp_all

lemma nth_fill_mask:
  "k < length as \<Longrightarrow> length ms = length as \<Longrightarrow>
   fill_mask as ms v ! k = (if ms ! k then v else as ! k)"
proof (induction as ms v arbitrary: k rule: fill_mask.induct)
  case (1 a as m ms v)
  then show ?case by (cases k) simp_all
qed simp_all

lemma fill_mask_map:
  "fill_mask (map f xs) (map (\<lambda>x. p (f x)) xs) v = map (\<lambda>x. if p (f x) then v else f x) xs"
  by (induction xs) simp_all

lemma list_of_two: "length xs = 2 \<Longrightarrow> xs = [xs ! 0, xs ! 1]"
  by (auto simp: length_Suc_conv numeral_2_eq_2)

lemma length_scattered_gaussian_pulse:
  "length (scattered_gaussian_pulse x fluence center sigma taus dc) = length x"
  by (simp add: scattered_gaussian_pulse_def gaussian_normed_def Let_def length_fill_mask)

text \<open>
  Claim C1. For sigma > 0 and taus > 0 the analytic scattered Gaussian is piecewise
  defined. With invsigma = 1/sigma, K = taus*invsigma, invK = 1/K and
  y = (x - center)*invsigma: the result has one sample per sample of x; if invK >= 10 it
  is dc plus the normed Gaussian, sample by sample; otherwise its k-th sample is
  dc + fluence*0.5*invK*invsigma*exp(a)*erfc(-(y - invK)/sqrt 2), where a is
  0.5*invK^2 - y*invK, replaced by 0 where that value is at least 300.
\<close>

theorem scattered_gaussian_pulse_piecewise:
  assumes "0 < sigma" and "0 < taus"
  defines "invsigma \<equiv> 1 / sigma"
  defines "invK \<equiv> 1 / (taus * invsigma)"
  shows "length (scattered_gaussian_pulse x fluence center sigma taus dc) = length x \<and>
    (\<forall>k < length x.
       scattered_gaussian_pulse x fluence center sigma taus dc ! k =
         (let y = (x ! k - center) * invsigma;
              argexp = 0.5 * invK\<^sup>2 - y * invK
          in if invK \<ge> 10 then dc + gaussian_normed x fluence center sigma ! k
             else dc + fluence * (0.5 * invK * invsigma
                    * exp (if argexp \<ge> 300 then 0 else argexp)
                    * special_erfc (- (y - invK) / sqrt 2))))"
proof (intro conjI allI impI)
  show "length (scattered_gaussian_pulse x fluence center sigma taus dc) = length x"
    by (rule length_scattered_gaussian_pulse)
next
  fix k assume k: "k < length x"
  show "scattered_gaussian_pulse x fluence center sigma taus dc ! k =
         (let y = (x ! k - center) * invsigma;
              argexp = 0.5 * invK\<^sup>2 - y * invK
          in if invK \<ge> 10 then dc + gaussian_normed x fluence center sigma ! k
             else dc + fluence * (0.5 * invK * invsigma
                    * exp (if argexp \<ge> 300 then 0 else argexp)
                    * special_erfc (- (y - invK) / sqrt 2)))"
  proof (cases "invK \<ge> 10")
    case True
    then show ?thesis
      using k by (simp add: scattered_gaussian_pulse_def gaussian_normed_def Let_def
          invK_def invsigma_def)
  next
    case False
    then show ?thesis
      using k
      by (simp add: scattered_gaussian_pulse_def Let_def invK_def invsigma_def
          length_fill_mask nth_fill_mask)
  qed
qed

theorem scattered_gaussian_pulse_piecewise_witness:
  "(0::real) < 1 \<and> (0::real) < 2 \<and>
   scattered_gaussian_pulse [0, 1] 1 0 1 2 0 =
     [1 / 4 * exp (1 / 8) * special_erfc (1 / (2 * sqrt 2)),
      1 / 4 * exp (- 3 / 8) * special_erfc (- 1 / (2 * sqrt 2))]"
proof -
  have s: "(0::real) < 1" and t: "(0::real) < 2" by simp_all
  have n: "length (scattered_gaussian_pulse [0, 1] 1 0 1 2 0) = 2"
    using scattered_gaussian_pulse_piecewise [OF s t, of "[0, 1]" 1 0 0] by simp
  have k0: "scattered_gaussian_pulse [0, 1] 1 0 1 2 0 ! 0
      = 1 / 4 * exp (1 / 8) * special_erfc (1 / (2 * sqrt 2))"
    using scattered_gaussian_pulse_piecewise [OF s t, of "[0, 1]" 1 0 0]
    by (simp add: Let_def power2_eq_square)
  have k1: "scattered_gaussian_pulse [0, 1] 1 0 1 2 0 ! 1
      = 1 / 4 * exp (- 3 / 8) * special_erfc (- 1 / (2 * sqrt 2))"
    using scattered_gaussian_pulse_piecewise [OF s t, of "[0, 1]" 1 0 0]
    by (simp add: Let_def power2_eq_square)
  have "scattered_gaussian_pulse [0, 1] 1 0 1 2 0 =
      [scattered_gaussian_pulse [0, 1] 1 0 1 2 0 ! 0,
       scattered_gaussian_pulse [0, 1] 1 0 1 2 0 ! 1]"
    by (rule list_of_two [OF n])
  then have "scattered_gaussian_pulse [0, 1] 1 0 1 2 0 =
     [1 / 4 * exp (1 / 8) * special_erfc (1 / (2 * sqrt 2)),
      1 / 4 * exp (- 3 / 8) * special_erfc (- 1 / (2 * sqrt 2))]"
    by (simp only: k0 k1)
  with s t show ?thesis by (intro conjI)
qed

subsection \<open>The analogue-instrumental model\<close>

lemma fl_add_not_finite_l: "\<not> is_finite a \<Longrightarrow> \<not> is_finite (fl_add a b)"
  by (cases a; cases b) simp_all

lemma fl_add_not_finite_r: "\<not> is_finite b \<Longrightarrow> \<not> is_finite (fl_add a b)"
  by (cases a; cases b) simp_all

lemma fl_sub_not_finite_l: "\<not> is_finite a \<Longrightarrow> \<not> is_finite (fl_sub a b)"
  by (cases a; cases b) (simp_all add: fl_sub_def)

lemma fl_sub_not_finite_r: "\<not> is_finite b \<Longrightarrow> \<not> is_finite (fl_sub a b)"
  by (cases a; cases b) (simp_all add: fl_sub_def)

lemma np_div_zero_not_finite: "\<not> is_finite (np_div a 0)"
  by (simp add: np_div_def)

lemma np_div_Fin: "b \<noteq> 0 \<Longrightarrow> np_div a b = Fin (a / b)"
  by (simp add: np_div_def)

lemma scattered_gaussian_pulse_py_value:
  "sigma \<noteq> 0 \<Longrightarrow> taus \<noteq> 0 \<Longrightarrow>
   scattered_gaussian_pulse_py x fluence center sigma taus dc =
     Inr (scattered_gaussian_pulse x fluence center sigma taus dc)"
  by (simp add: scattered_gaussian_pulse_py_def Let_def)

lemma scattered_gaussian_pulse_py_raises:
  "sigma = 0 \<or> taus = 0 \<Longrightarrow>
   scattered_gaussian_pulse_py x fluence center sigma taus dc = Inl ZeroDivisionError"
  by (auto simp: scattered_gaussian_pulse_py_def Let_def)

lemma afb_returns:
  assumes "sigma \<noteq> 0" and "taus \<noteq> 0" and "taui \<noteq> 0" and "taud \<noteq> 0"
  shows "gaussian_scattered_afb_instrumental x fluence center sigma taus taui taud dc =
    Inr (afb_samples x fluence center sigma taus taui taud dc)"
  using assms
  by (simp add: gaussian_scattered_afb_instrumental_def scattered_gaussian_pulse_py_value
      afb_samples_def Let_def)

lemma afb_raises:
  assumes "sigma = 0 \<or> taus = 0 \<or> taui = 0 \<or> taud = 0"
  shows "gaussian_scattered_afb_instrumental x fluence center sigma taus taui taud dc =
    Inl ZeroDivisionError"
proof (cases "sigma = 0")
  case True
  then show ?thesis
    by (simp add: gaussian_scattered_afb_instrumental_def scattered_gaussian_pulse_py_raises)
next
  case False
  with assms show ?thesis
    by (cases "taus = 0"; cases "taui = 0")
      (simp_all add: gaussian_scattered_afb_instrumental_def Let_def
        scattered_gaussian_pulse_py_raises scattered_gaussian_pulse_py_value)
qed

lemma length_afb:
  "length (afb_samples x fluence center sigma taus taui taud dc) = length x"
  by (simp add: afb_samples_def arr_add_def arr_sub_def length_scattered_gaussian_pulse)

lemma nth_afb:
  assumes "k < length x"
  shows "afb_samples x fluence center sigma taus taui taud dc ! k =
    fl_add (fl_sub (fl_add (Fin dc)
      (np_div (taus\<^sup>2 * scattered_gaussian_pulse x fluence center sigma taus 0 ! k)
         ((taus - taui) * (taus - taud))))
      (np_div (taui\<^sup>2 * scattered_gaussian_pulse x fluence center sigma taui 0 ! k)
         ((taus - taui) * (taui - taud))))
      (np_div (taud\<^sup>2 * scattered_gaussian_pulse x fluence center sigma taud 0 ! k)
         ((taus - taud) * (taui - taud)))"
  using assms
  by (simp add: afb_samples_def arr_add_def arr_sub_def length_scattered_gaussian_pulse)

text \<open>
  Claim C5, as the code has it. Let sigma and the three timescales be nonzero, and let
  G(tau) be the analytic scattered Gaussian of that timescale and zero offset. Then the
  analogue-instrumental model returns a profile with one sample per sample of x. For
  pairwise distinct taus, taui, taud its k-th sample is the finite value dc + A - B + C
  with A = taus^2*G(taus)/((taus-taui)*(taus-taud)),
  B = taui^2*G(taui)/((taus-taui)*(taui-taud)) and
  C = taud^2*G(taud)/((taus-taud)*(taui-taud)). When two of the timescales are equal the
  division by zero is not guarded: nothing is raised, and every sample of the result is
  an infinity or a NaN. With a zero timescale the scattered Gaussian raises
  ZeroDivisionError instead: for taus = 1, taui = 2, taud = 0 the model returns nothing.
\<close>

theorem afb_three_terms:
  fixes x :: "real list" and fluence center sigma :: real
  defines "G \<equiv> \<lambda>tau. scattered_gaussian_pulse x fluence center sigma tau 0"
  assumes "sigma \<noteq> 0" and "taus \<noteq> 0" and "taui \<noteq> 0" and "taud \<noteq> 0"
  shows "\<exists>res. gaussian_scattered_afb_instrumental x fluence center sigma taus taui taud dc
        = Inr res \<and>
    length res = length x \<and>
    (\<forall>k < length x.
      (taus \<noteq> taui \<and> taus \<noteq> taud \<and> taui \<noteq> taud \<longrightarrow>
        res ! k =
          Fin (dc + taus\<^sup>2 * G taus ! k / ((taus - taui) * (taus - taud))
                  - taui\<^sup>2 * G taui ! k / ((taus - taui) * (taui - taud))
                  + taud\<^sup>2 * G taud ! k / ((taus - taud) * (taui - taud)))) \<and>
      (taus = taui \<or> taus = taud \<or> taui = taud \<longrightarrow> \<not> is_finite (res ! k)))"
proof (intro exI conjI allI impI)
  show "gaussian_scattered_afb_instrumental x fluence center sigma taus taui taud dc
      = Inr (afb_samples x fluence center sigma taus taui taud dc)"
    by (rule afb_returns [OF assms(2-5)])
next
  show "length (afb_samples x fluence center sigma taus taui taud dc) = length x"
    by (rule length_afb)
next
  fix k assume k: "k < length x" and d: "taus \<noteq> taui \<and> taus \<noteq> taud \<and> taui \<noteq> taud"
  then show "afb_samples x fluence center sigma taus taui taud dc ! k =
          Fin (dc + taus\<^sup>2 * G taus ! k / ((taus - taui) * (taus - taud))
                  - taui\<^sup>2 * G taui ! k / ((taus - taui) * (taui - taud))
                  + taud\<^sup>2 * G taud ! k / ((taus - taud) * (taui - taud)))"
    by (simp add: nth_afb np_div_Fin fl_sub_def G_def)
next
  fix k assume k: "k < length x" and e: "taus = taui \<or> taus = taud \<or> taui = taud"
  from e show "\<not> is_finite (afb_samples x fluence center sigma taus taui taud dc ! k)"
  proof (elim disjE)
    assume "taus = taui"
    then show ?thesis
      unfolding nth_afb [OF k]
      by (intro fl_add_not_finite_l fl_sub_not_finite_r) (simp add: np_div_zero_not_finite)
  next
    assume "taus = taud"
    then show ?thesis
      unfolding nth_afb [OF k]
      by (intro fl_add_not_finite_r) (simp add: np_div_zero_not_finite)
  next
    assume "taui = taud"
    then show ?thesis
      unfolding nth_afb [OF k]
      by (intro fl_add_not_finite_r) (simp add: np_div_zero_not_finite)
  qed
qed

theorem afb_three_terms_witness:
  "(\<exists>res. gaussian_scattered_afb_instrumental [0] 1 0 1 1 2 3 0 = Inr res \<and>
      res ! 0 =
        Fin (scattered_gaussian_pulse [0] 1 0 1 1 0 ! 0 / 2
             - 4 * scattered_gaussian_pulse [0] 1 0 1 2 0 ! 0
             + 9 * scattered_gaussian_pulse [0] 1 0 1 3 0 ! 0 / 2)) \<and>
   (\<exists>res. gaussian_scattered_afb_instrumental [0] 1 0 1 1 1 3 0 = Inr res \<and>
      \<not> is_finite (res ! 0))"
proof -
  have n: "(1::real) \<noteq> 0" "(2::real) \<noteq> 0" "(3::real) \<noteq> 0" by simp_all
  from afb_three_terms [OF n(1) n(1) n(2) n(3), of "[0]" 1 0 0]
  have a: "\<exists>res. gaussian_scattered_afb_instrumental [0] 1 0 1 1 2 3 0 = Inr res \<and>
      res ! 0 =
        Fin (scattered_gaussian_pulse [0] 1 0 1 1 0 ! 0 / 2
             - 4 * scattered_gaussian_pulse [0] 1 0 1 2 0 ! 0
             + 9 * scattered_gaussian_pulse [0] 1 0 1 3 0 ! 0 / 2)"
    by simp blast
  from afb_three_terms [OF n(1) n(1) n(1) n(3), of "[0]" 1 0 0]
  have b: "\<exists>res. gaussian_scattered_afb_instrumental [0] 1 0 1 1 1 3 0 = Inr res \<and>
      \<not> is_finite (res ! 0)"
    by simp blast
  from a b show ?thesis by (rule conjI)
qed

theorem afb_three_terms_counterexample:
  "(1::real) \<noteq> 2 \<and> (1::real) \<noteq> 0 \<and> (2::real) \<noteq> 0 \<and>
   gaussian_scattered_afb_instrumental [0] 1 0 1 1 2 0 0 = Inl ZeroDivisionError"
  using afb_raises [of 1 1 2 0 "[0]" 1 0 0] by simp

subsection \<open>The boxcar and the equivalent width\<close>

lemma fill_mask_replicate_map:
  "fill_mask (replicate (length xs) z) (map p xs) v = map (\<lambda>x. if p x then v else z) xs"
  by (induction xs) simp_all

lemma select_mask_map: "select_mask xs (map p xs) = filter p xs"
  by (induction xs) simp_all

lemma boxcar_eq: "boxcar x width = map (\<lambda>xi. if \<bar>xi\<bar> \<le> 0.5 * width then 1 else 0) x"
  by (simp add: boxcar_def zeros_def fill_mask_replicate_map)

lemma sum_list_indicator:
  "sum_list (filter (\<lambda>a. a \<ge> 0) (map (\<lambda>x. if p x then 1 else (0::real)) xs))
     = real (length (filter p xs))"
  by (induction xs) simp_all

lemma np_max_Max: "as \<noteq> [] \<Longrightarrow> np_max as = Inr (Max (set as))"
  by (cases as) (simp_all add: Max.set_eq_fold [symmetric])

lemma Max_indicator:
  assumes "\<exists>x \<in> set xs. p x"
  shows "Max (set (map (\<lambda>x. if p x then 1 else (0::real)) xs)) = 1"
proof (rule Max_eqI)
  show "finite (set (map (\<lambda>x. if p x then 1 else (0::real)) xs))" by simp
  show "\<And>y. y \<in> set (map (\<lambda>x. if p x then 1 else (0::real)) xs) \<Longrightarrow> y \<le> 1" by auto
  from assms show "1 \<in> set (map (\<lambda>x. if p x then 1 else (0::real)) xs)" by force
qed

text \<open>
  Claim C9, as the code has it. For a time axis x of at least two samples and the boxcar
  amplitude boxcar(x, W) with at least one sample inside the boxcar, equivalent_width
  returns the number of samples with |x| <= 0.5*W times the sample spacing |x[0] - x[1]|
  (the maximum of the amplitude is 1). That product is W only when W is that multiple of
  the spacing: on the axis -1, 0, 1 the boxcar of width 1.5 has equivalent width 1.
\<close>

theorem equivalent_width_boxcar:
  assumes "2 \<le> length x" and "\<exists>xi \<in> set x. \<bar>xi\<bar> \<le> 0.5 * W"
  shows "equivalent_width x (boxcar x W) =
    Inr (Fin (real (length (filter (\<lambda>xi. \<bar>xi\<bar> \<le> 0.5 * W) x)) * \<bar>x ! 0 - x ! 1\<bar>))"
proof -
  let ?amp = "map (\<lambda>xi. if \<bar>xi\<bar> \<le> 0.5 * W then 1 else (0::real)) x"
  from assms(1) have ne: "?amp \<noteq> []" by auto
  have m: "np_max ?amp = Inr 1"
    using np_max_Max [OF ne] Max_indicator [OF assms(2)] by simp
  have s: "sum_list (select_mask ?amp (map (\<lambda>a. a \<ge> 0) ?amp))
      = real (length (filter (\<lambda>xi. \<bar>xi\<bar> \<le> 0.5 * W) x))"
    by (simp only: select_mask_map sum_list_indicator)
  show ?thesis
    using assms(1) unfolding boxcar_eq equivalent_width_def Let_def s m
    by (simp add: np_div_def)
qed

theorem equivalent_width_boxcar_witness:
  "2 \<le> length [- 2, - 1, 0, 1, 2 :: real] \<and>
   equivalent_width [- 2, - 1, 0, 1, 2] (boxcar [- 2, - 1, 0, 1, 2] 2) = Inr (Fin 3)"
proof -
  have a: "2 \<le> length [- 2, - 1, 0, 1, 2 :: real]" by simp
  have b: "\<exists>xi \<in> set [- 2, - 1, 0, 1, 2 :: real]. \<bar>xi\<bar> \<le> 0.5 * 2" by simp
  show ?thesis using a equivalent_width_boxcar [OF a b] by simp
qed

theorem equivalent_width_boxcar_counterexample:
  "equivalent_width [- 1, 0, 1] (boxcar [- 1, 0, 1] (3 / 2)) = Inr (Fin 1) \<and>
   equivalent_width [- 1, 0, 1] (boxcar [- 1, 0, 1] (3 / 2)) \<noteq> Inr (Fin (3 / 2))"
  by (simp add: equivalent_width_def boxcar_def zeros_def np_div_def Let_def)

subsection \<open>The convolved profile\<close>

lemma put_mask_replicate_map:
  "put_mask (replicate (length xs) z) (map p xs) (map f (filter p xs))
     = map (\<lambda>x. if p x then f x else z) xs"
  by (induction xs) simp_all

lemma pbf_isotropic_eq:
  "pbf_isotropic x taus = map (\<lambda>xi. if xi \<ge> 0 then (1 / taus) * exp (- xi / taus) else 0) x"
  by (simp add: pbf_isotropic_def zeros_def Let_def select_mask_map put_mask_replicate_map)

lemma length_convolve_full:
  "a \<noteq> [] \<Longrightarrow> b \<noteq> [] \<Longrightarrow> length (convolve_full a b) = length a + length b - 1"
  by (simp add: convolve_full_def)

lemma nth_convolve_full:
  assumes "a \<noteq> []" and "b \<noteq> []" and "m < length a + length b - 1"
  shows "convolve_full a b ! m =
     (\<Sum>j < length a. if j \<le> m \<and> m - j < length b then a ! j * b ! (m - j) else 0)"
proof -
  define F where "F = (\<lambda>m. \<Sum>j\<leftarrow>[0..<length a].
                         if j \<le> m \<and> m - j < length b then a ! j * b ! (m - j) else 0)"
  have "convolve_full a b = map F [0..<length a + length b - 1]"
    using assms(1,2) by (simp add: convolve_full_def F_def)
  then have "convolve_full a b ! m = F (0 + m)"
    using assms(3) by (simp only: nth_map_upt minus_nat.diff_0)
  then show ?thesis
    by (simp add: F_def interv_sum_list_conv_sum_set_nat atLeast0LessThan)
qed

lemma length_oaconvolve_same:
  "length b = length a \<Longrightarrow> length (oaconvolve_same a b) = length a"
  by (cases "a = []") (auto simp: oaconvolve_same_def Let_def convolve_full_def)

lemma nth_oaconvolve_same:
  assumes "length b = length a" and "k < length a"
  shows "oaconvolve_same a b ! k =
     (\<Sum>j < length a. if j \<le> k + (length a - 1) div 2 \<and> k + (length a - 1) div 2 - j < length a
                       then a ! j * b ! (k + (length a - 1) div 2 - j) else 0)"
proof -
  from assms have ne: "a \<noteq> []" "b \<noteq> []" by auto
  have len: "length (convolve_full a b) = length a + length a - 1"
    using length_convolve_full [OF ne] assms(1) by simp
  have st: "(length (convolve_full a b) - length a) div 2 = (length a - 1) div 2"
    using len by simp
  have bound: "(length a - 1) div 2 + k < length a + length b - 1"
    using assms by simp
  have "oaconvolve_same a b ! k = convolve_full a b ! ((length a - 1) div 2 + k)"
    using assms bound len by (simp add: oaconvolve_same_def Let_def st)
  also have "\<dots> = (\<Sum>j < length a. if j \<le> (length a - 1) div 2 + k
                         \<and> (length a - 1) div 2 + k - j < length b
                       then a ! j * b ! ((length a - 1) div 2 + k - j) else 0)"
    by (rule nth_convolve_full [OF ne bound])
  finally show ?thesis using assms(1) by (simp add: add.commute cong: if_cong)
qed

text \<open>
  Claim C6. For sigma > 0 and taus > 0 the convolved profile has one sample per sample
  of x, and its k-th sample is dc plus the k-th sample of the same-length centred linear
  convolution of the normed Gaussian g with the broadening function h, divided by the
  sum of the samples of h: h is (1/taus)*exp(-x/taus) where x >= 0 and 0 where x < 0, and
  the centred convolution at k is the sum of g(j)*h(k + c - j) over the indices j with
  0 <= k + c - j < n, with c = (n - 1) div 2 the start of the centred part.
\<close>

theorem scattered_profile_convolution:
  fixes x :: "real list" and fluence center sigma taus dc :: real
  assumes "0 < sigma" and "0 < taus"
  defines "n \<equiv> length x"
  defines "c \<equiv> (n - 1) div 2"
  defines "g \<equiv> \<lambda>j. fluence / (sigma * sqrt (2 * pi)) * exp (- 0.5 * ((x ! j - center) / sigma)\<^sup>2)"
  defines "h \<equiv> \<lambda>i. if x ! i \<ge> 0 then (1 / taus) * exp (- (x ! i) / taus) else 0"
  shows "length (scattered_profile x fluence center sigma taus dc) = n \<and>
    (\<forall>k < n. scattered_profile x fluence center sigma taus dc ! k =
       fl_add (Fin dc)
         (np_div (\<Sum>j < n. if j \<le> k + c \<and> k + c - j < n then g j * h (k + c - j) else 0)
                 (\<Sum>i < n. h i)))"
proof (intro conjI allI impI)
  have lg: "length (gaussian_normed x fluence center sigma) = n"
    by (simp add: gaussian_normed_def n_def)
  have lh: "length (pbf_isotropic x taus) = n"
    by (simp add: pbf_isotropic_eq n_def)
  have lc: "length (oaconvolve_same (gaussian_normed x fluence center sigma) (pbf_isotropic x taus)) = n"
    using length_oaconvolve_same [of "pbf_isotropic x taus" "gaussian_normed x fluence center sigma"]
      lg lh by simp
  show "length (scattered_profile x fluence center sigma taus dc) = n"
    by (simp add: scattered_profile_def Let_def lc)
  fix k assume k: "k < n"
  have gj: "\<And>j. j < n \<Longrightarrow> gaussian_normed x fluence center sigma ! j = g j"
    by (simp add: gaussian_normed_def g_def n_def)
  have hi: "\<And>i. i < n \<Longrightarrow> pbf_isotropic x taus ! i = h i"
    by (simp add: pbf_isotropic_eq h_def n_def)
  have sumh: "sum_list (pbf_isotropic x taus) = (\<Sum>i < n. h i)"
  proof -
    have "sum_list (pbf_isotropic x taus) = (\<Sum>i < n. pbf_isotropic x taus ! i)"
      using lh by (metis atLeast0LessThan sum_list_sum_nth)
    then show ?thesis using hi by simp
  qed
  have "oaconvolve_same (gaussian_normed x fluence center sigma) (pbf_isotropic x taus) ! k =
     (\<Sum>j < n. if j \<le> k + c \<and> k + c - j < n
        then gaussian_normed x fluence center sigma ! j * pbf_isotropic x taus ! (k + c - j) else 0)"
    using nth_oaconvolve_same [of "pbf_isotropic x taus" "gaussian_normed x fluence center sigma" k]
      lg lh k by (simp add: c_def cong: if_cong)
  also have "\<dots> = (\<Sum>j < n. if j \<le> k + c \<and> k + c - j < n then g j * h (k + c - j) else 0)"
    by (rule sum.cong) (auto simp: gj hi)
  finally have conv: "oaconvolve_same (gaussian_normed x fluence center sigma) (pbf_isotropic x taus) ! k
      = (\<Sum>j < n. if j \<le> k + c \<and> k + c - j < n then g j * h (k + c - j) else 0)" .
  show "scattered_profile x fluence center sigma taus dc ! k =
       fl_add (Fin dc)
         (np_div (\<Sum>j < n. if j \<le> k + c \<and> k + c - j < n then g j * h (k + c - j) else 0)
                 (\<Sum>i < n. h i))"
    using k lc by (simp add: scattered_profile_def Let_def conv sumh)
qed

theorem scattered_profile_convolution_witness:
  "(0::real) < 1 \<and> (0::real) < 1 \<and>
   scattered_profile [0, 1] 1 0 1 1 0 ! 0 = Fin (1 / (sqrt (2 * pi) * (1 + exp (- 1))))"
proof -
  have s: "(0::real) < 1" by simp
  have pos: "1 + exp (- 1 :: real) \<noteq> 0"
    using exp_gt_zero [of "- 1 :: real"] by linarith
  have "scattered_profile [0, 1] 1 0 1 1 0 ! 0 =
      Fin (1 / (sqrt (2 * pi) * (1 + exp (- 1))))"
    using scattered_profile_convolution [OF s s, of "[0, 1]" 1 0 0] pos
    by (simp add: numeral_2_eq_2 lessThan_Suc np_div_def)
  with s show ?thesis by simp
qed

subsection \<open>The band-integration model\<close>

lemma foldl_fl_add_Fin: "foldl fl_add (Fin a) (map Fin ys) = Fin (a + sum_list ys)"
  by (induction ys arbitrary: a) (simp_all add: add.assoc)

lemma fl_sum_Fin: "fl_sum (map Fin ys) = Fin (sum_list ys)"
  by (simp add: fl_sum_def foldl_fl_add_Fin)

lemma length_bandintegrated_sum:
  "length (bandintegrated_sum x fluence center sigma taus f_lo f_hi nfreq) = length x"
  by (simp add: bandintegrated_sum_def sum_axis0_def Let_def)

lemma sum_axis0_single: "length p = n \<Longrightarrow> sum_axis0 n [p] = p"
  by (auto simp: sum_axis0_def intro: nth_equalityI)

lemma bandintegrated_sum_single:
  "bandintegrated_sum x fluence center sigma taus f_lo f_hi 1 =
     scattered_gaussian_pulse x (fluence * (f_lo / (0.5 * (f_lo + f_hi))) powr (- 1.5)) center sigma
       (taus * (f_lo / (0.5 * (f_lo + f_hi))) powr (- 4)) 0"
  by (simp add: bandintegrated_sum_def geomspace_def Let_def sum_axis0_single
      length_scattered_gaussian_pulse)

text \<open>
  Claim C4. For a call of the band-integration model on a time axis of at least two
  samples with x[0] different from x[1], whose summed per-frequency profiles have a
  nonzero sum, the model returns a profile of the length of x, and the returned profile
  minus dc has the discrete integral (the sum of its samples times |x[0] - x[1]|) equal
  to the input fluence: the summed profiles are scaled by the fluence over their own
  discrete integral before dc is added. A nonzero sum implies nfreq >= 1.
\<close>

theorem bandintegrated_model_integral:
  assumes "2 \<le> length x" and "x ! 0 \<noteq> x ! 1"
    and "sum_list (bandintegrated_sum x fluence center sigma taus f_lo f_hi nfreq) \<noteq> 0"
  shows "\<exists>res. bandintegrated_model x fluence center sigma taus dc f_lo f_hi nfreq = Inr res \<and>
     length res = length x \<and>
     fl_mul (fl_sum (map (\<lambda>v. fl_sub v (Fin dc)) res)) (Fin \<bar>x ! 0 - x ! 1\<bar>) = Fin fluence"
proof -
  define S where "S = bandintegrated_sum x fluence center sigma taus f_lo f_hi nfreq"
  define tot where "tot = sum_list S * \<bar>x ! 0 - x ! 1\<bar>"
  define res where "res = map (\<lambda>r. Fin (dc + fluence / tot * r)) S"
  have tot: "tot \<noteq> 0" using assms(2,3) by (simp add: tot_def S_def)
  have "bandintegrated_model x fluence center sigma taus dc f_lo f_hi nfreq =
      Inr (map (\<lambda>r. fl_add (Fin dc) (fl_mul (np_div fluence tot) (Fin r))) S)"
    using assms(1) by (simp add: bandintegrated_model_def Let_def S_def tot_def)
  moreover have "np_div fluence tot = Fin (fluence / tot)"
    using tot by (simp add: np_div_def)
  ultimately have m: "bandintegrated_model x fluence center sigma taus dc f_lo f_hi nfreq = Inr res"
    by (simp add: res_def)
  have l: "length res = length x"
    by (simp add: res_def S_def length_bandintegrated_sum)
  define ys where "ys = map (\<lambda>r. fluence / tot * r) S"
  have "map (\<lambda>v. fl_sub v (Fin dc)) res = map Fin ys"
    by (simp add: res_def ys_def fl_sub_def)
  then have "fl_sum (map (\<lambda>v. fl_sub v (Fin dc)) res) = Fin (sum_list ys)"
    by (simp only: fl_sum_Fin)
  moreover have "sum_list ys = fluence / tot * sum_list S"
    unfolding ys_def by (induction S) (simp_all add: algebra_simps)
  ultimately have "fl_sum (map (\<lambda>v. fl_sub v (Fin dc)) res) = Fin (fluence / tot * sum_list S)"
    by simp
  then have "fl_mul (fl_sum (map (\<lambda>v. fl_sub v (Fin dc)) res)) (Fin \<bar>x ! 0 - x ! 1\<bar>)
      = Fin (fluence / tot * sum_list S * \<bar>x ! 0 - x ! 1\<bar>)"
    by simp
  also have "fluence / tot * sum_list S * \<bar>x ! 0 - x ! 1\<bar> = fluence"
    using tot by (simp add: tot_def)
  finally show ?thesis using m l by blast
qed

text \<open>
  Claim C2, as the code has it. With nfreq = 1 the frequency grid np.geomspace(f_lo,
  f_hi, num=1) is the single point f_lo, the lower band edge. For a time axis of at
  least two samples and 0 < f_lo < f_hi, with r = f_lo / (0.5*(f_lo + f_hi)), the model
  returns dc + (fluence / (sum(p) * |x[0] - x[1]|)) * p, where p is the analytic
  scattered Gaussian with fluence fluence*r^(-1.5), scattering time taus*r^(-4) and zero
  offset: the profile at the lower band edge, rescaled to the discrete integral fluence.
  It is not the scattered Gaussian of the input parameters.
\<close>

theorem bandintegrated_model_single:
  fixes x :: "real list" and fluence center sigma taus dc f_lo f_hi :: real
  assumes "2 \<le> length x" and "0 < f_lo" and "f_lo < f_hi"
  defines "r \<equiv> f_lo / (0.5 * (f_lo + f_hi))"
  defines "p \<equiv> scattered_gaussian_pulse x (fluence * r powr (- 1.5)) center sigma
                  (taus * r powr (- 4)) 0"
  shows "bandintegrated_model x fluence center sigma taus dc f_lo f_hi 1 =
    Inr (map (\<lambda>v. fl_add (Fin dc)
                 (fl_mul (np_div fluence (sum_list p * \<bar>x ! 0 - x ! 1\<bar>)) (Fin v))) p)"
  unfolding bandintegrated_model_def bandintegrated_sum_single Let_def p_def r_def
  using assms(1) by simp

lemma gaussian_branch_example:
  assumes "0 < taus" and "taus \<le> 1 / 5"
  shows "scattered_gaussian_pulse [0, 2] F 0 2 taus 0 =
     [F / (2 * sqrt (2 * pi)), F / (2 * sqrt (2 * pi)) * exp (- 1 / 2)]"
proof -
  have "10 \<le> 1 / (taus * (1 / 2))"
    using assms by (simp add: field_simps)
  then show ?thesis
    by (simp add: scattered_gaussian_pulse_def gaussian_normed_def Let_def)
qed

lemma band_example_sum:
  "bandintegrated_sum [0, 2] 1 0 2 (1 / 100) 1 3 1 =
     [(1 / 2) powr (- 1.5) / (2 * sqrt (2 * pi)),
      (1 / 2) powr (- 1.5) / (2 * sqrt (2 * pi)) * exp (- 1 / 2)]"
proof -
  have t: "(1 / 100) * (1 / (0.5 * (1 + 3))) powr (- 4) = (4 / 25 :: real)"
    by (simp add: powr_minus power_divide)
  show ?thesis
    unfolding bandintegrated_sum_single t
    by (subst gaussian_branch_example) simp_all
qed

lemma band_example_sum_pos:
  "0 < sum_list (bandintegrated_sum [0, 2] 1 0 2 (1 / 100) 1 3 1)"
  unfolding band_example_sum
  by (simp add: add_pos_pos)

theorem bandintegrated_model_integral_witness:
  "2 \<le> length [0, 2 :: real] \<and> [0, 2 :: real] ! 0 \<noteq> [0, 2] ! 1 \<and>
   (\<exists>res. bandintegrated_model [0, 2] 1 0 2 (1 / 100) 0 1 3 1 = Inr res \<and>
      length res = length [0, 2 :: real] \<and>
      fl_mul (fl_sum (map (\<lambda>v. fl_sub v (Fin 0)) res)) (Fin 2) = Fin 1)"
proof -
  have a: "2 \<le> length [0, 2 :: real]" and b: "[0, 2 :: real] ! 0 \<noteq> [0, 2] ! 1"
    by simp_all
  have c: "sum_list (bandintegrated_sum [0, 2] 1 0 2 (1 / 100) 1 3 1) \<noteq> 0"
    using band_example_sum_pos by simp
  show ?thesis
    using a b bandintegrated_model_integral [OF a b c, of 0] by simp
qed

lemma band_example_value:
  "bandintegrated_model [0, 2] 1 0 2 (1 / 100) 0 1 3 1 =
     Inr [Fin (1 / (2 * (1 + exp (- 1 / 2)))),
          Fin (exp (- 1 / 2) / (2 * (1 + exp (- 1 / 2))))]"
proof -
  define c :: real where "c = (1 / 2) powr (- 1.5) / (2 * sqrt (2 * pi))"
  define e :: real where "e = exp (- 1 / 2)"
  have c: "0 < c" by (simp add: c_def)
  have e: "0 < e" by (simp add: e_def)
  have s: "bandintegrated_sum [0, 2] 1 0 2 (1 / 100) 1 3 1 = [c, c * e]"
    by (simp only: band_example_sum c_def e_def)
  have "0 < c + c * e"
    using c e by (intro add_pos_pos mult_pos_pos)
  then have tot: "(c + c * e) * 2 \<noteq> 0"
    by (simp del: distrib_right_numeral)
  have d: "np_div 1 ((c + c * e) * 2) = Fin (1 / ((c + c * e) * 2))"
    using tot by (simp only: np_div_def if_False)
  have f: "(c + c * e) * 2 = c * (2 * (1 + e))"
    by (simp add: algebra_simps)
  have v0: "1 / ((c + c * e) * 2) * c = 1 / (2 * (1 + e))"
    unfolding f using c by simp
  have v1: "1 / ((c + c * e) * 2) * (c * e) = e / (2 * (1 + e))"
    unfolding f using c by simp
  have "bandintegrated_model [0, 2] 1 0 2 (1 / 100) 0 1 3 1 =
      Inr [fl_add (Fin 0) (fl_mul (np_div 1 ((c + c * e) * 2)) (Fin c)),
           fl_add (Fin 0) (fl_mul (np_div 1 ((c + c * e) * 2)) (Fin (c * e)))]"
    unfolding bandintegrated_model_def Let_def s by simp
  also have "\<dots> = Inr [Fin (1 / (2 * (1 + e))), Fin (e / (2 * (1 + e)))]"
    unfolding d fl_mul.simps fl_add.simps v0 v1 by simp
  finally show ?thesis by (simp only: e_def)
qed

theorem bandintegrated_model_single_witness:
  "2 \<le> length [0, 2 :: real] \<and> (0::real) < 1 \<and> (1::real) < 3 \<and>
   bandintegrated_model [0, 2] 1 0 2 (1 / 100) 0 1 3 1 =
     Inr (map (\<lambda>v. fl_add (Fin 0)
            (fl_mul (np_div 1 (sum_list (scattered_gaussian_pulse [0, 2]
                  (1 * (1 / (0.5 * (1 + 3))) powr (- 1.5)) 0 2
                  (1 / 100 * (1 / (0.5 * (1 + 3))) powr (- 4)) 0) * \<bar>[0, 2] ! 0 - [0, 2] ! 1\<bar>))
              (Fin v)))
          (scattered_gaussian_pulse [0, 2] (1 * (1 / (0.5 * (1 + 3))) powr (- 1.5)) 0 2
             (1 / 100 * (1 / (0.5 * (1 + 3))) powr (- 4)) 0))"
proof -
  have a: "2 \<le> length [0, 2 :: real]" and b: "(0::real) < 1" and c: "(1::real) < 3"
    by simp_all
  show ?thesis
    using bandintegrated_model_single [OF a b c, of 1 0 2 "1 / 100" 0]
    by (intro conjI a b c)
qed

theorem bandintegrated_model_single_counterexample:
  "bandintegrated_model [0, 2] 1 0 2 (1 / 100) 0 1 3 1 \<noteq>
     Inr (map Fin (scattered_gaussian_pulse [0, 2] 1 0 2 (1 / 100) 0))"
proof -
  have g: "scattered_gaussian_pulse [0, 2] 1 0 2 (1 / 100) 0 =
      [1 / (2 * sqrt (2 * pi)), 1 / (2 * sqrt (2 * pi)) * exp (- 1 / 2)]"
    by (rule gaussian_branch_example) simp_all
  have "exp (- 1 / 2 :: real) < 1" by simp
  then have lo: "1 + exp (- 1 / 2 :: real) < 2" by simp
  have "(2::real)\<^sup>2 \<le> 2 * pi" using pi_ge_two by simp
  then have hi: "2 \<le> sqrt (2 * pi)" by (rule real_le_rsqrt)
  have gen: "inverse (2 * (1 + a)) \<noteq> inverse (2 * b)"
    if "1 + a < 2" and "2 \<le> b" for a b :: real
  proof -
    from that have "1 + a \<noteq> b" by linarith
    then have "2 * (1 + a) \<noteq> 2 * b"
      by (metis mult_cancel_left zero_neq_numeral)
    then show ?thesis
      by (simp only: inverse_eq_iff_eq not_False_eq_True)
  qed
  have "inverse (2 * (1 + exp (- 1 / 2 :: real))) \<noteq> inverse (2 * sqrt (2 * pi))"
    by (rule gen [OF lo hi])
  then have "1 / (2 * (1 + exp (- 1 / 2))) \<noteq> 1 / (2 * sqrt (2 * pi))"
    by (simp only: inverse_eq_divide not_False_eq_True)
  then show ?thesis
    unfolding band_example_value g by simp
qed

section \<open>Properties of the fit of the sub-bands\<close>

subsection \<open>A fit that does not converge\<close>

lemma fit_profile_model_not_converged:
  "\<not> success (leastsq ext fr p d) \<Longrightarrow>
   fit_profile_model ext fr p d tr = (Inl (RuntimeError ''Fit did not converge.''), tr @ [Leastsq_fit])"
  by (simp add: fit_profile_model_def Let_def)

lemma fit_profile_model_converged:
  "success (leastsq ext fr p d) \<Longrightarrow>
   fit_profile_model ext fr p d tr =
     (Inr (emcee ext fr p (leastsq ext fr p d)), tr @ [Leastsq_fit, Emcee_fit])"
  by (simp add: fit_profile_model_def Let_def)

lemma band_step_not_converged:
  assumes "band_snr plot_range (dedispersed_T cand ! i) = Inr (fr, p, snr)"
    and "fl_ge snr (Fin 3.7)"
    and "\<not> success (leastsq ext fr p (band_dm_smear ext cand f bw i))"
  shows "band_step ext cand plot_range f bw i df tr =
    (Inl (RuntimeError ''Fit did not converge.''), tr @ [Running i, Notice_snr snr, Leastsq_fit])"
  using assms
  by (simp add: band_step_def Let_def fit_profile_model_not_converged)

lemma bands_loop_append:
  "bands_loop ext cand plot_range f bw (xs @ ys) df tr =
     (case bands_loop ext cand plot_range f bw xs df tr of
        (Inl e, tr') \<Rightarrow> (Inl e, tr')
      | (Inr df', tr') \<Rightarrow> bands_loop ext cand plot_range f bw ys df' tr')"
  by (induction xs arbitrary: df tr) (auto split: prod.splits sum.splits)

lemma upt_split: "i \<le> n \<Longrightarrow> [0..<n] = [0..<i] @ [i..<n]"
  using upt_add_eq_append [of 0 i "n - i"] by simp

lemma bands_loop_abort_at:
  assumes "i < n"
    and "bands_loop ext cand plot_range f bw [0..<i] [] [] = (Inr df, tr)"
    and "band_step ext cand plot_range f bw i df tr = (Inl e, tr')"
  shows "bands_loop ext cand plot_range f bw [0..<n] [] [] = (Inl e, tr')"
proof -
  from assms(1) have "[0..<n] = [0..<i] @ i # [Suc i..<n]"
    using upt_split [of i n] by (simp add: upt_conv_Cons)
  then show ?thesis
    using assms(2,3) by (simp add: bands_loop_append)
qed

lemma bands_loop_abort_before:
  assumes "i < n"
    and "bands_loop ext cand plot_range f bw [0..<i] [] [] = (Inl e, tr)"
  shows "bands_loop ext cand plot_range f bw [0..<n] [] [] = (Inl e, tr)"
proof -
  from assms(1) have "[0..<n] = [0..<i] @ [i..<n]"
    using upt_split [of i n] by simp
  then show ?thesis
    using assms(2) by (simp add: bands_loop_append)
qed

text \<open>
  Claim C7. Let sub-band i pass the S/N gate and let its least-squares fit report
  non-convergence. Then the run of fit_profile ends in an error and returns no table. If
  the loop reaches sub-band i, the error is the RuntimeError "Fit did not converge." of
  that band, and the trace of the run ends with the notices of band i and its single
  least-squares fit: the fit is not tried again, the posterior sampling of the band is
  not started, no later band is run and the band is not skipped. If the loop does not
  reach band i, an earlier band has already ended the run with an error.
\<close>

theorem fit_nonconvergence_aborts:
  fixes cand :: candidate and f :: real
  defines "chan_bw \<equiv> chan_freqs cand ! 1 - chan_freqs cand ! 0"
  assumes "2 \<le> length (chan_freqs cand)" and "i < length (dedispersed_T cand)"
    and "band_snr plot_range (dedispersed_T cand ! i) = Inr (fr, p, snr)"
    and "fl_ge snr (Fin 3.7)"
    and "\<not> success (leastsq ext fr p (band_dm_smear ext cand f chan_bw i))"
  shows "(\<exists>e tr. fit_profile ext cand plot_range f = (Inl e, tr)) \<and>
    (\<forall>df tr. bands_loop ext cand plot_range f chan_bw [0..<i] [] [] = (Inr df, tr) \<longrightarrow>
       fit_profile ext cand plot_range f =
         (Inl (RuntimeError ''Fit did not converge.''),
          tr @ [Running i, Notice_snr snr, Leastsq_fit]))"
proof -
  have fp: "fit_profile ext cand plot_range f =
      (case bands_loop ext cand plot_range f chan_bw [0..<length (dedispersed_T cand)] [] [] of
         (Inl e, tr) \<Rightarrow> (Inl e, tr)
       | (Inr df, tr) \<Rightarrow> (Inr (map add_widths df), tr))"
    using assms(2) by (simp add: fit_profile_def Let_def chan_bw_def)
  have reach: "fit_profile ext cand plot_range f =
         (Inl (RuntimeError ''Fit did not converge.''),
          tr @ [Running i, Notice_snr snr, Leastsq_fit])"
    if "bands_loop ext cand plot_range f chan_bw [0..<i] [] [] = (Inr df, tr)" for df tr
    using bands_loop_abort_at [OF assms(3) that band_step_not_converged [OF assms(4,5,6)]]
    by (simp add: fp)
  have "\<exists>e tr. fit_profile ext cand plot_range f = (Inl e, tr)"
  proof (cases "bands_loop ext cand plot_range f chan_bw [0..<i] [] []")
    case (Pair r tr)
    show ?thesis
    proof (cases r)
      case (Inl e)
      with Pair bands_loop_abort_before [OF assms(3), of ext cand plot_range f chan_bw e tr]
      show ?thesis by (simp add: fp)
    next
      case (Inr df)
      with Pair reach [of df tr] show ?thesis by simp
    qed
  qed
  with reach show ?thesis by blast
qed

lemma example_band_snr:
  "band_snr [- 30, - 25, 0, 25, 30] [Fin 0, Fin 1, Fin 10, Fin 0, Fin 1] =
     Inr ([- 30, - 25, 0, 25, 30],
          [Fin (- 6 / 19), Fin (- 7 / 38), Fin 1, Fin (- 6 / 19), Fin (- 7 / 38)],
          Fin (76000 / 7413))"
  by (simp add: band_snr_def Let_def np_mean_def fl_sum_def fl_sub_def np_div_def fl_max2_def
      np_quantile_def fl_sort_def sorts_before_def lerp_def)

theorem fit_nonconvergence_aborts_witness:
  "2 \<le> length (chan_freqs example_cand) \<and> 0 < length (dedispersed_T example_cand) \<and>
   fl_ge (Fin (76000 / 7413)) (Fin 3.7) \<and>
   fit_profile diverging_fitter example_cand example_range 256 =
     (Inl (RuntimeError ''Fit did not converge.''),
      [Running 0, Notice_snr (Fin (76000 / 7413)), Leastsq_fit])"
proof -
  have a: "2 \<le> length (chan_freqs example_cand)"
    and b: "0 < length (dedispersed_T example_cand)"
    by (simp_all add: example_cand_def)
  have c: "band_snr example_range (dedispersed_T example_cand ! 0) =
     Inr ([- 30, - 25, 0, 25, 30],
          [Fin (- 6 / 19), Fin (- 7 / 38), Fin 1, Fin (- 6 / 19), Fin (- 7 / 38)],
          Fin (76000 / 7413))"
    using example_band_snr by (simp add: example_cand_def example_range_def)
  have d: "fl_ge (Fin (76000 / 7413)) (Fin 3.7)" by simp
  have e: "\<not> success (leastsq diverging_fitter [- 30, - 25, 0, 25, 30]
      [Fin (- 6 / 19), Fin (- 7 / 38), Fin 1, Fin (- 6 / 19), Fin (- 7 / 38)]
      (band_dm_smear diverging_fitter example_cand 256
         (chan_freqs example_cand ! 1 - chan_freqs example_cand ! 0) 0))"
    by (simp add: diverging_fitter_def)
  show ?thesis
    using fit_nonconvergence_aborts [OF a b c d e] a b d by simp
qed

subsection \<open>The widths of a Gaussian\<close>

text \<open>
  The partial sums of the exponential series bound \<open>exp\<close> from below on the
  non-negative reals, and with the remainder of Maclaurin from above; they give the
  digits of \<open>ln 2\<close> and \<open>ln 10\<close> that the two constants need.
\<close>

lemma exp_partial_sum_le:
  fixes x :: real
  assumes "0 \<le> x"
  shows "(\<Sum>m<n. x ^ m / fact m) \<le> exp x"
proof -
  obtain t where "exp x = (\<Sum>m<n. x ^ m / fact m) + (exp t / fact n) * x ^ n"
    using Maclaurin_exp_le [of x n] by blast
  moreover have "0 \<le> (exp t / fact n) * x ^ n"
    using assms by simp
  ultimately show ?thesis by linarith
qed

lemma exp_le_partial_sum:
  fixes x :: real
  assumes "0 \<le> x" and "exp x \<le> B"
  shows "exp x \<le> (\<Sum>m<n. x ^ m / fact m) + B / fact n * x ^ n"
proof -
  obtain t where t: "\<bar>t\<bar> \<le> \<bar>x\<bar>"
    and e: "exp x = (\<Sum>m<n. x ^ m / fact m) + (exp t / fact n) * x ^ n"
    using Maclaurin_exp_le [of x n] by blast
  from t assms(1) have "t \<le> x" by linarith
  then have "exp t \<le> B" using assms(2) by (meson exp_le_cancel_iff order_trans)
  then have "exp t / fact n \<le> B / fact n"
    by (simp add: divide_right_mono)
  then have "(exp t / fact n) * x ^ n \<le> (B / fact n) * x ^ n"
    using assms(1) by (intro mult_right_mono) simp_all
  with e show ?thesis by linarith
qed

lemma ln2_lower: "(4319 / 6231 :: real) < ln 2"
proof -
  let ?a = "4319 / 6231 :: real"
  have "exp ?a \<le> exp 1" by simp
  then have b: "exp ?a \<le> 3" using exp_le by linarith
  have "exp ?a \<le> (\<Sum>m<10. ?a ^ m / fact m) + 3 / fact 10 * ?a ^ 10"
    by (rule exp_le_partial_sum [OF _ b]) simp
  also have "\<dots> < 2"
    by (simp add: eval_nat_numeral)
  finally have "exp ?a < exp (ln 2)" by simp
  then show ?thesis by (simp only: exp_less_cancel_iff)
qed

lemma ln2_upper: "ln 2 < (2731 / 3940 :: real)"
proof -
  let ?b = "2731 / 3940 :: real"
  have "2 < (\<Sum>m<10. ?b ^ m / fact m)"
    by (simp add: eval_nat_numeral)
  also have "\<dots> \<le> exp ?b"
    by (rule exp_partial_sum_le) simp
  finally have "exp (ln 2) < exp ?b" by simp
  then show ?thesis by (simp only: exp_less_cancel_iff)
qed

lemma ln10_lower: "(12381 / 5377 :: real) < ln 10"
proof -
  let ?a = "12381 / 5377 :: real"
  have "exp ?a \<le> exp (1 + 1 + 1)" by simp
  also have "\<dots> = exp 1 * exp 1 * exp 1" by (simp only: exp_add)
  also have "\<dots> \<le> 3 * 3 * 3"
    by (intro mult_mono exp_le) simp_all
  finally have b: "exp ?a \<le> 27" by simp
  have "exp ?a \<le> (\<Sum>m<18. ?a ^ m / fact m) + 27 / fact 18 * ?a ^ 18"
    by (rule exp_le_partial_sum [OF _ b]) simp
  also have "\<dots> < 10"
    by (simp add: eval_nat_numeral)
  finally have "exp ?a < exp (ln 10)" by simp
  then show ?thesis by (simp only: exp_less_cancel_iff)
qed

lemma ln10_upper: "ln 10 < (16300 / 7079 :: real)"
proof -
  let ?b = "16300 / 7079 :: real"
  have "10 < (\<Sum>m<16. ?b ^ m / fact m)"
    by (simp add: eval_nat_numeral)
  also have "\<dots> \<le> exp ?b"
    by (rule exp_partial_sum_le) simp
  finally have "exp (ln 10) < exp ?b" by simp
  then show ?thesis by (simp only: exp_less_cancel_iff)
qed

lemma fwhm_constant:
  "23548200 / 10000000 \<le> 2 * sqrt (2 * ln 2) \<and> 2 * sqrt (2 * ln 2) < 23548201 / 10000000"
proof
  have "(23548200 / 20000000 :: real)\<^sup>2 \<le> 2 * ln 2"
    using ln2_lower by (simp add: power2_eq_square)
  then have "23548200 / 20000000 \<le> sqrt (2 * ln 2)"
    by (rule real_le_rsqrt)
  then show "23548200 / 10000000 \<le> 2 * sqrt (2 * ln 2)" by simp
  have "2 * ln 2 < (23548201 / 20000000 :: real)\<^sup>2"
    using ln2_upper by (simp add: power2_eq_square)
  then have "sqrt (2 * ln 2) < 23548201 / 20000000"
    by (rule real_less_lsqrt [rotated]) simp
  then show "2 * sqrt (2 * ln 2) < 23548201 / 10000000" by simp
qed

lemma fwtm_constant:
  "42919320 / 10000000 \<le> 2 * sqrt (2 * ln 10) \<and> 2 * sqrt (2 * ln 10) < 42919321 / 10000000"
proof
  have "(42919320 / 20000000 :: real)\<^sup>2 \<le> 2 * ln 10"
    using ln10_lower by (simp add: power2_eq_square)
  then have "42919320 / 20000000 \<le> sqrt (2 * ln 10)"
    by (rule real_le_rsqrt)
  then show "42919320 / 10000000 \<le> 2 * sqrt (2 * ln 10)" by simp
  have "2 * ln 10 < (42919321 / 20000000 :: real)\<^sup>2"
    using ln10_upper by (simp add: power2_eq_square)
  then have "sqrt (2 * ln 10) < 42919321 / 20000000"
    by (rule real_less_lsqrt [rotated]) simp
  then show "2 * sqrt (2 * ln 10) < 42919321 / 10000000" by simp
qed

text \<open>The run of the converging fitter on the example.\<close>

lemma example_band1_snr:
  "band_snr [- 30, - 25, 0, 25, 30] [Fin 0, Fin 0, Fin 0, Fin 0, Fin 0] =
     Inr ([- 30, - 25, 0, 25, 30], [NaN, NaN, NaN, NaN, NaN], NaN)"
  by (simp add: band_snr_def Let_def np_mean_def fl_sum_def fl_sub_def np_div_def fl_max2_def
      np_quantile_def fl_sort_def sorts_before_def lerp_def)

lemma example_band2_snr:
  "band_snr [- 30, - 25, 0, 25, 30] [Fin 0, Fin 4, Fin 6, Fin 0, Fin 4] =
     Inr ([- 30, - 25, 0, 25, 30],
          [Fin (- 7 / 8), Fin (3 / 8), Fin 1, Fin (- 7 / 8), Fin (3 / 8)],
          Fin (8000 / 7413))"
  by (simp add: band_snr_def Let_def np_mean_def fl_sum_def fl_sub_def np_div_def fl_max2_def
      np_quantile_def fl_sort_def sorts_before_def lerp_def)

lemma example_loop:
  "bands_loop converging_fitter example_cand example_range 256 1 [0, 1, 2] [] [] =
     (Inr [example_row], example_trace)"
  by (simp add: band_step_def example_cand_def example_range_def example_band_snr
      example_band1_snr example_band2_snr Let_def fit_profile_model_def converging_fitter_def
      flat_fit_def band_cfreq_def example_row_def example_trace_def np_div_def)

lemma example_run:
  "fit_profile converging_fitter example_cand example_range 256 =
     (Inr [add_widths example_row], example_trace)"
proof -
  have l: "[0..<length (dedispersed_T example_cand)] = [0, 1, 2]"
    by (simp add: example_cand_def upt_rec)
  have bw: "chan_freqs example_cand ! 1 - chan_freqs example_cand ! 0 = 1"
    by (simp add: example_cand_def)
  have n: "\<not> length (chan_freqs example_cand) < 2"
    by (simp add: example_cand_def)
  show ?thesis
    unfolding fit_profile_def Let_def l bw example_loop
    using n by simp
qed

lemma fit_profile_rows:
  assumes "fit_profile ext cand plot_range f = (Inr rows, tr)"
  shows "\<exists>df. rows = map add_widths df"
  using assms
  by (auto simp: fit_profile_def Let_def split: if_splits prod.splits sum.splits)

text \<open>
  Claim C8. For sigma > 0, gaussian_fwhm(sigma) = 2*sqrt(2*ln 2)*sigma and
  gaussian_fwtm(sigma) = 2*sqrt(2*ln 10)*sigma; the ratios to sigma do not depend on
  sigma, and they are the constants 2.3548200... and 4.2919320... (each lies between the
  seven-digit value and the next one). In the table that fit_profile returns, the
  columns fwhm, err_fwhm, fwtm and err_fwtm of every row are these functions of the
  row's sigma and err_sigma.
\<close>

theorem gaussian_widths:
  assumes "0 < sigma"
  shows "gaussian_fwhm sigma = 2 * sqrt (2 * ln 2) * sigma \<and>
    gaussian_fwtm sigma = 2 * sqrt (2 * ln 10) * sigma \<and>
    gaussian_fwhm sigma / sigma = 2 * sqrt (2 * ln 2) \<and>
    gaussian_fwtm sigma / sigma = 2 * sqrt (2 * ln 10) \<and>
    2.3548200 \<le> gaussian_fwhm sigma / sigma \<and> gaussian_fwhm sigma / sigma < 2.3548201 \<and>
    4.2919320 \<le> gaussian_fwtm sigma / sigma \<and> gaussian_fwtm sigma / sigma < 4.2919321 \<and>
    (\<forall>rows tr. fit_profile ext cand plot_range f = (Inr rows, tr) \<longrightarrow>
       (\<forall>r \<in> set rows.
          fwhm_col r = gaussian_fwhm (sigma_col (fitted r)) \<and>
          err_fwhm_col r = gaussian_fwhm (err_sigma_col (fitted r)) \<and>
          fwtm_col r = gaussian_fwtm (sigma_col (fitted r)) \<and>
          err_fwtm_col r = gaussian_fwtm (err_sigma_col (fitted r))))"
proof -
  have h: "gaussian_fwhm sigma / sigma = 2 * sqrt (2 * ln 2)"
    and t: "gaussian_fwtm sigma / sigma = 2 * sqrt (2 * ln 10)"
    using assms by (simp_all add: gaussian_fwhm_def gaussian_fwtm_def)
  have table: "fwhm_col r = gaussian_fwhm (sigma_col (fitted r)) \<and>
          err_fwhm_col r = gaussian_fwhm (err_sigma_col (fitted r)) \<and>
          fwtm_col r = gaussian_fwtm (sigma_col (fitted r)) \<and>
          err_fwtm_col r = gaussian_fwtm (err_sigma_col (fitted r))"
    if "fit_profile ext cand plot_range f = (Inr rows, tr)" and "r \<in> set rows" for rows tr r
  proof -
    from fit_profile_rows [OF that(1)] obtain df where "rows = map add_widths df" ..
    with that(2) obtain b where "r = add_widths b" by auto
    then show ?thesis by (simp add: add_widths_def)
  qed
  have c1: "2.3548200 \<le> gaussian_fwhm sigma / sigma" "gaussian_fwhm sigma / sigma < 2.3548201"
    unfolding h using fwhm_constant by simp_all
  have c2: "4.2919320 \<le> gaussian_fwtm sigma / sigma" "gaussian_fwtm sigma / sigma < 4.2919321"
    unfolding t using fwtm_constant by simp_all
  show ?thesis
    using h t c1 c2 table
    by (intro conjI allI impI ballI) (simp_all add: gaussian_fwhm_def gaussian_fwtm_def)
qed

theorem gaussian_widths_witness:
  "(0::real) < 1 \<and>
   2.3548200 \<le> gaussian_fwhm 1 \<and> gaussian_fwhm 1 < 2.3548201 \<and>
   4.2919320 \<le> gaussian_fwtm 1 \<and> gaussian_fwtm 1 < 4.2919321 \<and>
   fit_profile converging_fitter example_cand example_range 256 =
     (Inr [add_widths example_row], example_trace) \<and>
   fwhm_col (add_widths example_row) = gaussian_fwhm 1 \<and>
   err_fwhm_col (add_widths example_row) = gaussian_fwhm (1 / 10) \<and>
   fwtm_col (add_widths example_row) = gaussian_fwtm 1 \<and>
   err_fwtm_col (add_widths example_row) = gaussian_fwtm (1 / 10)"
proof -
  have s: "(0::real) < 1" by simp
  note w = gaussian_widths [OF s, of converging_fitter example_cand example_range 256]
  have r: "sigma_col example_row = 1" "err_sigma_col example_row = 1 / 10"
    by (simp_all add: example_row_def)
  from w example_run have "fwhm_col (add_widths example_row) = gaussian_fwhm 1 \<and>
   err_fwhm_col (add_widths example_row) = gaussian_fwhm (1 / 10) \<and>
   fwtm_col (add_widths example_row) = gaussian_fwtm 1 \<and>
   err_fwtm_col (add_widths example_row) = gaussian_fwtm (1 / 10)"
    by (simp add: add_widths_def r)
  moreover from w have "2.3548200 \<le> gaussian_fwhm 1 \<and> gaussian_fwhm 1 < 2.3548201 \<and>
   4.2919320 \<le> gaussian_fwtm 1 \<and> gaussian_fwtm 1 < 4.2919321"
    by simp
  ultimately show ?thesis using s example_run by simp
qed

subsection \<open>Masks, sums and maxima with special values\<close>

lemma select_mask_zip: "select_mask xs ms = map fst (filter snd (zip xs ms))"
  by (induction xs ms rule: select_mask.induct) simp_all

lemma select_mask_map2:
  "length vs = length ts \<Longrightarrow>
   select_mask vs (map P ts) = map snd (filter (\<lambda>(t, v). P t) (zip ts vs))"
  by (induction ts vs rule: list_induct2') simp_all

lemma length_select_mask_same:
  "length vs = length ts \<Longrightarrow>
   length (select_mask vs (map P ts)) = length (select_mask ts (map P ts))"
  by (induction ts vs rule: list_induct2') simp_all

lemma fl_add_finite: "is_finite (fl_add a b) \<Longrightarrow> is_finite a \<and> is_finite b"
  by (cases a; cases b) simp_all

lemma foldl_fl_add_finite:
  "foldl fl_add acc w = Fin s \<Longrightarrow> is_finite acc \<and> (\<forall>v \<in> set w. is_finite v)"
proof (induction w arbitrary: acc)
  case Nil
  then show ?case by simp
next
  case (Cons v w)
  then have "is_finite (fl_add acc v) \<and> (\<forall>u \<in> set w. is_finite u)" by simp
  then show ?case using fl_add_finite [of acc v] by simp
qed

lemma fl_sum_finite: "fl_sum w = Fin s \<Longrightarrow> \<forall>v \<in> set w. is_finite v"
  using foldl_fl_add_finite [of "Fin 0" w s] by (simp add: fl_sum_def)

lemma fl_max2_cases: "fl_max2 a b = a \<or> fl_max2 a b = b"
  by (auto simp: fl_max2_def)

lemma fl_max2_NaN_right: "fl_max2 a NaN = NaN"
  by (simp add: fl_max2_def)

lemma fl_max2_NaN_left: "fl_max2 NaN b = NaN"
  by (simp add: fl_max2_def)

lemma fold_fl_max2_mem: "fold fl_max2 as a \<in> set (a # as)"
proof (induction as arbitrary: a)
  case Nil
  then show ?case by simp
next
  case (Cons b as)
  from Cons [of "fl_max2 b a"] fl_max2_cases [of b a] show ?case by auto
qed

lemma fold_fl_max2_NaN_acc: "fold fl_max2 as NaN = NaN"
  by (induction as) (simp_all add: fl_max2_NaN_right)

lemma fold_fl_max2_NaN: "NaN \<in> set as \<Longrightarrow> fold fl_max2 as a = NaN"
proof (induction as arbitrary: a)
  case Nil
  then show ?case by simp
next
  case (Cons b as)
  show ?case
  proof (cases "b = NaN")
    case True
    then show ?thesis by (simp add: fl_max2_NaN_left fold_fl_max2_NaN_acc)
  next
    case False
    with Cons show ?thesis by simp
  qed
qed

lemma fl_amax_mem: "fl_amax as = Inr m \<Longrightarrow> m \<in> set as"
  using fold_fl_max2_mem by (cases as) auto

lemma fl_amax_NaN: "fl_amax as = Inr m \<Longrightarrow> NaN \<in> set as \<Longrightarrow> m = NaN"
proof (cases as)
  case Nil
  then show "fl_amax as = Inr m \<Longrightarrow> NaN \<in> set as \<Longrightarrow> m = NaN" by simp
next
  case (Cons a bs)
  assume "fl_amax as = Inr m" and "NaN \<in> set as"
  with Cons show "m = NaN"
    by (cases "a = NaN") (auto simp: fold_fl_max2_NaN_acc fold_fl_max2_NaN)
qed

lemma fl_div_self_not_NaN: "fl_div m m \<noteq> NaN \<Longrightarrow> \<exists>a. m = Fin a \<and> a \<noteq> 0"
  by (cases m) (auto simp: np_div_def split: if_splits)

lemma fl_div_NaN_left: "fl_div a b \<noteq> NaN \<Longrightarrow> a \<noteq> NaN"
  by (cases a) simp_all

lemma fl_ge_not_NaN: "fl_ge a b \<Longrightarrow> a \<noteq> NaN"
  by (cases a) simp_all

lemma fl_sub_Fin_result:
  "fl_sub v mean = Fin a \<Longrightarrow> is_finite v \<and> is_finite mean"
  by (cases v; cases mean) (simp_all add: fl_sub_def)

lemma fl_div_Fin_nat: "fl_div s (Fin (real n)) = Fin mu \<Longrightarrow> is_finite s"
  by (cases s) (simp_all split: if_splits)

subsection \<open>The parts of band\_snr\<close>

lemma band_snr_parts:
  assumes "band_snr plot_range prof = Inr (fr, p, snr)"
  defines "window \<equiv> map (\<lambda>t. \<bar>t\<bar> \<le> 200) plot_range"
  defines "w \<equiv> select_mask prof window"
  defines "baseline \<equiv> select_mask p (map (\<lambda>t. \<bar>t\<bar> > 20) fr)"
  shows "length prof = length plot_range \<and> fr = select_mask plot_range window \<and>
    (\<exists>m q25 q75 peak.
       fl_amax (map (\<lambda>v. fl_sub v (np_mean w)) w) = Inr m \<and>
       p = map (\<lambda>v. fl_div (fl_sub v (np_mean w)) m) w \<and>
       np_quantile baseline 0.25 = Inr q25 \<and>
       np_quantile baseline 0.75 = Inr q75 \<and>
       fl_amax p = Inr peak \<and>
       snr = fl_div peak (fl_mul (Fin 0.7413) (fl_abs (fl_sub q75 q25))))"
  using assms(1) unfolding band_snr_def Let_def window_def w_def baseline_def
  by (auto split: if_splits sum.splits simp: comp_def)

lemma gate_pass_finite:
  assumes b: "band_snr plot_range prof = Inr (fr, p, snr)" and g: "fl_ge snr threshold"
  shows "(\<forall>v \<in> set p. is_finite v) \<and> 2 \<le> length fr"
proof -
  define w where "w = select_mask prof (map (\<lambda>t. \<bar>t\<bar> \<le> 200) plot_range)"
  define mean where "mean = np_mean w"
  from band_snr_parts [OF b] obtain m q25 q75 peak
    where len: "length prof = length plot_range"
      and fr: "fr = select_mask plot_range (map (\<lambda>t. \<bar>t\<bar> \<le> 200) plot_range)"
      and m: "fl_amax (map (\<lambda>v. fl_sub v mean) w) = Inr m"
      and p: "p = map (\<lambda>v. fl_div (fl_sub v mean) m) w"
      and peak: "fl_amax p = Inr peak"
      and snr: "snr = fl_div peak (fl_mul (Fin 0.7413) (fl_abs (fl_sub q75 q25)))"
    unfolding w_def mean_def by blast
  from g have "snr \<noteq> NaN" by (rule fl_ge_not_NaN)
  with snr have "peak \<noteq> NaN" using fl_div_NaN_left by blast
  with peak have noNaN: "NaN \<notin> set p" using fl_amax_NaN by blast
  from fl_amax_mem [OF m] obtain v0 where v0: "v0 \<in> set w" and mv: "m = fl_sub v0 mean"
    by auto
  from v0 have "fl_div (fl_sub v0 mean) m \<in> set p" by (simp add: p)
  with noNaN mv have "fl_div m m \<noteq> NaN" by metis
  then obtain a where a: "m = Fin a" "a \<noteq> 0"
    using fl_div_self_not_NaN by blast
  from mv a have "is_finite mean" using fl_sub_Fin_result [of v0 mean a] by simp
  then obtain mu where mu: "mean = Fin mu" by (cases mean) simp_all
  then have "is_finite (fl_sum w)"
    using fl_div_Fin_nat [of "fl_sum w" "length w" mu] by (simp add: mean_def np_mean_def)
  then obtain s where "fl_sum w = Fin s" by (cases "fl_sum w") simp_all
  then have wfin: "\<forall>v \<in> set w. is_finite v" by (rule fl_sum_finite)
  have pfin: "\<forall>v \<in> set p. is_finite v"
  proof
    fix v assume "v \<in> set p"
    then obtain u where u: "u \<in> set w" and v: "v = fl_div (fl_sub u mean) m"
      by (auto simp: p)
    from wfin u obtain x where "u = Fin x" by (cases u) auto
    with v a mu show "is_finite v" by (simp add: fl_sub_def np_div_def)
  qed
  have "w \<noteq> []" using m by auto
  moreover have "length w \<noteq> 1"
  proof
    assume "length w = 1"
    then obtain u where u: "w = [u]" by (cases w) auto
    with wfin obtain x where x: "u = Fin x" by (cases u) auto
    have "mean = Fin x" by (simp add: mean_def np_mean_def fl_sum_def u x np_div_def)
    with m u x have "m = Fin 0" by (simp add: fl_sub_def)
    with a show False by simp
  qed
  ultimately have "2 \<le> length w" by (cases w) (auto simp: Suc_le_eq)
  moreover have "length fr = length w"
    unfolding fr w_def using length_select_mask_same [OF len] by simp
  ultimately show ?thesis using pfin by simp
qed

subsection \<open>A window of zeros\<close>

lemma fl_sum_zeros: "fl_sum (replicate n (Fin 0)) = Fin 0"
  by (induction n) (simp_all add: fl_sum_def)

lemma fl_max2_same: "fl_max2 c c = c"
  by (simp add: fl_max2_def)

lemma fl_amax_replicate: "0 < n \<Longrightarrow> fl_amax (replicate n c) = Inr c"
proof -
  have "fold fl_max2 (replicate k c) c = c" for k
    by (induction k) (simp_all add: fl_max2_same)
  then show "0 < n \<Longrightarrow> fl_amax (replicate n c) = Inr c"
    by (cases n) simp_all
qed

lemma fl_sort_NaNs: "fl_sort (replicate k NaN) = replicate k NaN"
proof (induction k)
  case 0
  then show ?case by (simp add: fl_sort_def)
next
  case (Suc k)
  have "fl_insort NaN (replicate k NaN) = replicate (Suc k) NaN"
    by (cases k) (simp_all add: sorts_before_def)
  with Suc show ?case by (simp add: fl_sort_def)
qed

lemma np_quantile_NaNs: "0 < k \<Longrightarrow> np_quantile (replicate k NaN) q = Inr NaN"
  by (simp add: np_quantile_def Let_def fl_sort_NaNs)

lemma select_mask_replicate:
  "select_mask (replicate (length ts) c) (map P ts) = replicate (length (filter P ts)) c"
  by (induction ts) simp_all

lemma band_snr_zero_window:
  assumes len: "length prof = length plot_range"
    and z: "\<forall>(t, v) \<in> set (zip plot_range prof). \<bar>t\<bar> \<le> 200 \<longrightarrow> v = Fin 0"
    and o: "\<exists>t \<in> set plot_range. 20 < \<bar>t\<bar> \<and> \<bar>t\<bar> \<le> 200"
  defines "fr \<equiv> filter (\<lambda>t. \<bar>t\<bar> \<le> 200) plot_range"
  shows "band_snr plot_range prof = Inr (fr, replicate (length fr) NaN, NaN)"
proof -
  define n where "n = length fr"
  define k where "k = length (filter (\<lambda>t. \<bar>t\<bar> > 20) fr)"
  have fr: "select_mask plot_range (map (\<lambda>t. \<bar>t\<bar> \<le> 200) plot_range) = fr"
    by (simp add: select_mask_map fr_def)
  have w: "select_mask prof (map (\<lambda>t. \<bar>t\<bar> \<le> 200) plot_range) = replicate n (Fin 0)"
  proof (rule replicate_eqI)
    show "length (select_mask prof (map (\<lambda>t. \<bar>t\<bar> \<le> 200) plot_range)) = n"
      using length_select_mask_same [OF len] fr by (simp add: n_def)
    fix y assume "y \<in> set (select_mask prof (map (\<lambda>t. \<bar>t\<bar> \<le> 200) plot_range))"
    then show "y = Fin 0"
      using z by (auto simp: select_mask_map2 [OF len])
  qed
  from o have "0 < k" by (auto simp: k_def fr_def filter_empty_conv)
  then have "0 < n" by (auto simp: k_def n_def)
  have mean: "np_mean (replicate n (Fin 0)) = Fin 0"
    using \<open>0 < n\<close> by (simp add: np_mean_def fl_sum_zeros np_div_def)
  have d: "map (\<lambda>v. fl_sub v (Fin 0)) (replicate n (Fin 0)) = replicate n (Fin 0)"
    by (simp add: fl_sub_def)
  have p: "map (\<lambda>v. fl_div v (Fin 0)) (replicate n (Fin 0)) = replicate n NaN"
    by (simp add: np_div_def)
  have base: "select_mask (replicate n NaN) (map (\<lambda>t. \<bar>t\<bar> > 20) fr) = replicate k NaN"
    unfolding n_def k_def by (rule select_mask_replicate)
  have am: "fl_amax (replicate n (Fin 0)) = Inr (Fin 0)"
    using \<open>0 < n\<close> by (rule fl_amax_replicate)
  have pk: "fl_amax (replicate n NaN) = Inr NaN"
    using \<open>0 < n\<close> by (rule fl_amax_replicate)
  have q: "np_quantile (replicate k NaN) q = Inr NaN" for q
    using \<open>0 < k\<close> by (rule np_quantile_NaNs)
  show ?thesis
    unfolding band_snr_def Let_def fr w mean d am sum.case p base q pk
    using len by (simp add: n_def)
qed

subsection \<open>The signal-to-noise gate\<close>

lemma band_step_skip:
  assumes "band_snr plot_range (dedispersed_T cand ! i) = Inr (fr, p, snr)"
    and "\<not> fl_ge snr (Fin 3.7)"
  shows "band_step ext cand plot_range f bw i df tr =
    (Inr df, tr @ [Running i, Notice_snr snr, Notice_too_low snr])"
  using assms by (simp add: band_step_def Let_def)

lemma np_max_nonempty: "as \<noteq> [] \<Longrightarrow> \<exists>m. np_max as = Inr m"
  by (cases as) simp_all

lemma band_step_fitted:
  assumes b: "band_snr plot_range (dedispersed_T cand ! i) = Inr (fr, p, snr)"
    and g: "fl_ge snr (Fin 3.7)"
    and s: "success (leastsq ext fr p (band_dm_smear ext cand f bw i))"
    and l: "length (best_fit (emcee ext fr p (leastsq ext fr p (band_dm_smear ext cand f bw i))))
              = length fr"
  shows "\<exists>row. band_step ext cand plot_range f bw i df tr =
      (Inr (df @ [row]), tr @ [Running i, Notice_snr snr, Leastsq_fit, Emcee_fit]) \<and>
    band_col row = i \<and>
    cfreq_col row = band_cfreq cand f bw i \<and>
    fluence_col row =
      best_fluence (emcee ext fr p (leastsq ext fr p (band_dm_smear ext cand f bw i))) \<and>
    sigma_col row =
      best_sigma (emcee ext fr p (leastsq ext fr p (band_dm_smear ext cand f bw i))) \<and>
    taus_col row =
      best_taus (emcee ext fr p (leastsq ext fr p (band_dm_smear ext cand f bw i)))"
proof -
  from gate_pass_finite [OF b g] have two: "2 \<le> length fr" by simp
  with l have "best_fit (emcee ext fr p (leastsq ext fr p (band_dm_smear ext cand f bw i))) \<noteq> []"
    by auto
  then obtain m where
    "np_max (best_fit (emcee ext fr p (leastsq ext fr p (band_dm_smear ext cand f bw i)))) = Inr m"
    using np_max_nonempty by blast
  then show ?thesis
    using b g s two
    by (simp add: band_step_def Let_def fit_profile_model_converged)
qed

text \<open>
  Claim C3. In the pass of the loop for sub-band i, fr is the time axis of the window of
  200 ms and p is the windowed, normalised profile: with w the samples of the band
  inside the window, p is w minus its mean, divided by the maximum of that difference.
  The S/N is the maximum of p over the noise, and the noise is 0.7413 times the absolute
  difference of the quantiles 0.75 and 0.25 of the samples of p whose time offset
  satisfies |t| > 20. If the S/N is below 3.7
  the band is skipped: the table is returned as it is, no error is raised and the fitter
  is not called. If the S/N is at least 3.7 the least-squares fit is run; and if it
  converges (and the best fit has one sample per sample of the window, as lmfit returns
  it) exactly one row, the row of band i with the fitted values, is appended.
\<close>

theorem snr_gate:
  fixes ext :: externals and cand :: candidate and f bw :: real
  assumes b: "band_snr plot_range (dedispersed_T cand ! i) = Inr (fr, p, snr)"
  defines "w \<equiv> map snd (filter (\<lambda>(t, v). \<bar>t\<bar> \<le> 200) (zip plot_range (dedispersed_T cand ! i)))"
  defines "baseline \<equiv> map snd (filter (\<lambda>(t, v). \<bar>t\<bar> > 20) (zip fr p))"
  defines "ml \<equiv> leastsq ext fr p (band_dm_smear ext cand f bw i)"
  shows "fr = filter (\<lambda>t. \<bar>t\<bar> \<le> 200) plot_range \<and> length p = length fr \<and>
    (\<exists>m. fl_amax (map (\<lambda>v. fl_sub v (np_mean w)) w) = Inr m \<and>
       p = map (\<lambda>v. fl_div (fl_sub v (np_mean w)) m) w) \<and>
    (\<exists>q25 q75 peak.
       np_quantile baseline 0.25 = Inr q25 \<and> np_quantile baseline 0.75 = Inr q75 \<and>
       fl_amax p = Inr peak \<and>
       snr = fl_div peak (fl_mul (Fin 0.7413) (fl_abs (fl_sub q75 q25)))) \<and>
    (fl_lt snr (Fin 3.7) \<longrightarrow>
       band_step ext cand plot_range f bw i df tr =
         (Inr df, tr @ [Running i, Notice_snr snr, Notice_too_low snr])) \<and>
    (fl_ge snr (Fin 3.7) \<longrightarrow>
       (\<exists>res. band_step ext cand plot_range f bw i df tr =
          (res, tr @ [Running i, Notice_snr snr, Leastsq_fit]
                  @ (if success ml then [Emcee_fit] else [])))) \<and>
    (fl_ge snr (Fin 3.7) \<and> success ml \<and> length (best_fit (emcee ext fr p ml)) = length fr \<longrightarrow>
       (\<exists>row. band_step ext cand plot_range f bw i df tr =
            (Inr (df @ [row]), tr @ [Running i, Notice_snr snr, Leastsq_fit, Emcee_fit]) \<and>
          band_col row = i \<and> cfreq_col row = band_cfreq cand f bw i \<and>
          fluence_col row = best_fluence (emcee ext fr p ml) \<and>
          sigma_col row = best_sigma (emcee ext fr p ml) \<and>
          taus_col row = best_taus (emcee ext fr p ml)))"
proof (intro conjI impI)
  from band_snr_parts [OF b] obtain m q25 q75 peak
    where len: "length (dedispersed_T cand ! i) = length plot_range"
      and fr: "fr = select_mask plot_range (map (\<lambda>t. \<bar>t\<bar> \<le> 200) plot_range)"
      and m: "fl_amax (map (\<lambda>v. fl_sub v
                  (np_mean (select_mask (dedispersed_T cand ! i) (map (\<lambda>t. \<bar>t\<bar> \<le> 200) plot_range))))
                (select_mask (dedispersed_T cand ! i) (map (\<lambda>t. \<bar>t\<bar> \<le> 200) plot_range))) = Inr m"
      and p: "p = map (\<lambda>v. fl_div (fl_sub v
                  (np_mean (select_mask (dedispersed_T cand ! i) (map (\<lambda>t. \<bar>t\<bar> \<le> 200) plot_range)))) m)
                (select_mask (dedispersed_T cand ! i) (map (\<lambda>t. \<bar>t\<bar> \<le> 200) plot_range))"
      and q1: "np_quantile (select_mask p (map (\<lambda>t. \<bar>t\<bar> > 20) fr)) 0.25 = Inr q25"
      and q3: "np_quantile (select_mask p (map (\<lambda>t. \<bar>t\<bar> > 20) fr)) 0.75 = Inr q75"
      and peak: "fl_amax p = Inr peak"
      and snr: "snr = fl_div peak (fl_mul (Fin 0.7413) (fl_abs (fl_sub q75 q25)))"
    by blast
  show w: "fr = filter (\<lambda>t. \<bar>t\<bar> \<le> 200) plot_range"
    by (simp add: fr select_mask_map)
  show lp: "length p = length fr"
    unfolding p fr using length_select_mask_same [OF len] by simp
  have "select_mask (dedispersed_T cand ! i) (map (\<lambda>t. \<bar>t\<bar> \<le> 200) plot_range) = w"
    unfolding w_def by (rule select_mask_map2 [OF len])
  with m p
  show "\<exists>m. fl_amax (map (\<lambda>v. fl_sub v (np_mean w)) w) = Inr m \<and>
       p = map (\<lambda>v. fl_div (fl_sub v (np_mean w)) m) w"
    by auto
  have "select_mask p (map (\<lambda>t. \<bar>t\<bar> > 20) fr) = baseline"
    unfolding baseline_def by (rule select_mask_map2 [OF lp])
  with q1 q3 peak snr
  show "\<exists>q25 q75 peak.
       np_quantile baseline 0.25 = Inr q25 \<and> np_quantile baseline 0.75 = Inr q75 \<and>
       fl_amax p = Inr peak \<and>
       snr = fl_div peak (fl_mul (Fin 0.7413) (fl_abs (fl_sub q75 q25)))"
    by auto
next
  assume "fl_lt snr (Fin 3.7)"
  then have "\<not> fl_ge snr (Fin 3.7)" by (simp add: fl_lt_def)
  then show "band_step ext cand plot_range f bw i df tr =
         (Inr df, tr @ [Running i, Notice_snr snr, Notice_too_low snr])"
    by (rule band_step_skip [OF b])
next
  assume g: "fl_ge snr (Fin 3.7)"
  show "\<exists>res. band_step ext cand plot_range f bw i df tr =
          (res, tr @ [Running i, Notice_snr snr, Leastsq_fit]
                  @ (if success ml then [Emcee_fit] else []))"
    using b g
    by (auto simp: band_step_def Let_def fit_profile_model_def ml_def
        split: sum.splits prod.splits)
next
  assume "fl_ge snr (Fin 3.7) \<and> success ml \<and> length (best_fit (emcee ext fr p ml)) = length fr"
  then show "\<exists>row. band_step ext cand plot_range f bw i df tr =
            (Inr (df @ [row]), tr @ [Running i, Notice_snr snr, Leastsq_fit, Emcee_fit]) \<and>
          band_col row = i \<and> cfreq_col row = band_cfreq cand f bw i \<and>
          fluence_col row = best_fluence (emcee ext fr p ml) \<and>
          sigma_col row = best_sigma (emcee ext fr p ml) \<and>
          taus_col row = best_taus (emcee ext fr p ml)"
    unfolding ml_def using band_step_fitted [OF b] by blast
qed

text \<open>
  Claim C10, as the code has it. Let the windowed profile of sub-band i be zero
  throughout, on a window that has a sample outside 20 ms. Then the peak normalisation
  divides zero by zero: every sample of the normalised profile is NaN and so is the S/N,
  and the band is skipped: the table is returned as it is, no error is raised, the
  fitter is not called. Any band whose S/N is NaN is skipped in the same way, since the
  gate is the negation of snr >= 3.7; and a band whose normalised profile has a sample
  that is not finite never passes the gate, so the fitter never receives such a profile.
  The sample outside 20 ms is needed: on a window without one the baseline is empty,
  np.quantile raises, and the zero band ends the run with an error instead of being
  skipped.
\<close>

theorem zero_band_skipped:
  fixes cand :: candidate and f bw :: real
  assumes len: "length (dedispersed_T cand ! i) = length plot_range"
    and z: "\<forall>(t, v) \<in> set (zip plot_range (dedispersed_T cand ! i)). \<bar>t\<bar> \<le> 200 \<longrightarrow> v = Fin 0"
    and o: "\<exists>t \<in> set plot_range. 20 < \<bar>t\<bar> \<and> \<bar>t\<bar> \<le> 200"
  defines "fr \<equiv> filter (\<lambda>t. \<bar>t\<bar> \<le> 200) plot_range"
  shows "band_snr plot_range (dedispersed_T cand ! i) = Inr (fr, replicate (length fr) NaN, NaN) \<and>
    band_step ext cand plot_range f bw i df tr =
      (Inr df, tr @ [Running i, Notice_snr NaN, Notice_too_low NaN]) \<and>
    (\<forall>fr' p'. band_snr plot_range (dedispersed_T cand ! j) = Inr (fr', p', NaN) \<longrightarrow>
       band_step ext cand plot_range f bw j df tr =
         (Inr df, tr @ [Running j, Notice_snr NaN, Notice_too_low NaN])) \<and>
    (\<forall>fr' p' snr'. band_snr plot_range (dedispersed_T cand ! j) = Inr (fr', p', snr') \<and>
         (\<exists>v \<in> set p'. \<not> is_finite v) \<longrightarrow>
       band_step ext cand plot_range f bw j df tr =
         (Inr df, tr @ [Running j, Notice_snr snr', Notice_too_low snr']))"
proof (intro conjI allI impI)
  show s: "band_snr plot_range (dedispersed_T cand ! i) = Inr (fr, replicate (length fr) NaN, NaN)"
    unfolding fr_def by (rule band_snr_zero_window [OF len z o])
  show "band_step ext cand plot_range f bw i df tr =
      (Inr df, tr @ [Running i, Notice_snr NaN, Notice_too_low NaN])"
    by (rule band_step_skip [OF s]) simp
next
  fix fr' p'
  assume "band_snr plot_range (dedispersed_T cand ! j) = Inr (fr', p', NaN)"
  then show "band_step ext cand plot_range f bw j df tr =
         (Inr df, tr @ [Running j, Notice_snr NaN, Notice_too_low NaN])"
    by (rule band_step_skip) simp
next
  fix fr' p' snr'
  assume a: "band_snr plot_range (dedispersed_T cand ! j) = Inr (fr', p', snr') \<and>
         (\<exists>v \<in> set p'. \<not> is_finite v)"
  then have "\<not> fl_ge snr' (Fin 3.7)"
    using gate_pass_finite [of plot_range "dedispersed_T cand ! j" fr' p' snr' "Fin 3.7"] by blast
  with a show "band_step ext cand plot_range f bw j df tr =
         (Inr df, tr @ [Running j, Notice_snr snr', Notice_too_low snr'])"
    using band_step_skip by blast
qed

theorem snr_gate_witness:
  "band_snr example_range (dedispersed_T example_cand ! 0) =
     Inr ([- 30, - 25, 0, 25, 30],
          [Fin (- 6 / 19), Fin (- 7 / 38), Fin 1, Fin (- 6 / 19), Fin (- 7 / 38)],
          Fin (76000 / 7413)) \<and>
   fl_ge (Fin (76000 / 7413)) (Fin 3.7) \<and>
   (\<exists>row. band_step converging_fitter example_cand example_range 256 1 0 [] [] =
        (Inr [row], [Running 0, Notice_snr (Fin (76000 / 7413)), Leastsq_fit, Emcee_fit]) \<and>
      band_col row = 0 \<and> cfreq_col row = 1528 \<and> sigma_col row = 1) \<and>
   band_snr example_range (dedispersed_T example_cand ! 2) =
     Inr ([- 30, - 25, 0, 25, 30],
          [Fin (- 7 / 8), Fin (3 / 8), Fin 1, Fin (- 7 / 8), Fin (3 / 8)],
          Fin (8000 / 7413)) \<and>
   fl_lt (Fin (8000 / 7413)) (Fin 3.7) \<and>
   band_step converging_fitter example_cand example_range 256 1 2 [example_row] [] =
     (Inr [example_row],
      [Running 2, Notice_snr (Fin (8000 / 7413)), Notice_too_low (Fin (8000 / 7413))])"
proof -
  have b0: "band_snr example_range (dedispersed_T example_cand ! 0) =
     Inr ([- 30, - 25, 0, 25, 30],
          [Fin (- 6 / 19), Fin (- 7 / 38), Fin 1, Fin (- 6 / 19), Fin (- 7 / 38)],
          Fin (76000 / 7413))"
    using example_band_snr by (simp add: example_cand_def example_range_def)
  have b2: "band_snr example_range (dedispersed_T example_cand ! 2) =
     Inr ([- 30, - 25, 0, 25, 30],
          [Fin (- 7 / 8), Fin (3 / 8), Fin 1, Fin (- 7 / 8), Fin (3 / 8)],
          Fin (8000 / 7413))"
    using example_band2_snr by (simp add: example_cand_def example_range_def)
  have g0: "fl_ge (Fin (76000 / 7413)) (Fin 3.7)" by simp
  have g2: "fl_lt (Fin (8000 / 7413)) (Fin 3.7)" by (simp add: fl_lt_def)
  have c: "band_cfreq example_cand 256 1 0 = 1528"
    by (simp add: band_cfreq_def example_cand_def)
  have r0: "\<exists>row. band_step converging_fitter example_cand example_range 256 1 0 [] [] =
        (Inr [row], [Running 0, Notice_snr (Fin (76000 / 7413)), Leastsq_fit, Emcee_fit]) \<and>
      band_col row = 0 \<and> cfreq_col row = 1528 \<and> sigma_col row = 1"
    using snr_gate [OF b0, where ext = converging_fitter and f = 256 and bw = 1
        and df = "[]" and tr = "[]"] g0 c
    by (simp add: converging_fitter_def flat_fit_def) blast
  have r2: "band_step converging_fitter example_cand example_range 256 1 2 [example_row] [] =
     (Inr [example_row],
      [Running 2, Notice_snr (Fin (8000 / 7413)), Notice_too_low (Fin (8000 / 7413))])"
    using snr_gate [OF b2, where ext = converging_fitter and f = 256 and bw = 1
        and df = "[example_row]" and tr = "[]"] g2
    by simp
  from b0 g0 r0 b2 g2 r2 show ?thesis by (intro conjI)
qed

theorem zero_band_skipped_witness:
  "length (dedispersed_T example_cand ! 1) = length example_range \<and>
   band_snr example_range (dedispersed_T example_cand ! 1) =
     Inr (example_range, [NaN, NaN, NaN, NaN, NaN], NaN) \<and>
   band_step converging_fitter example_cand example_range 256 1 1 [example_row] [] =
     (Inr [example_row], [Running 1, Notice_snr NaN, Notice_too_low NaN])"
proof -
  have len: "length (dedispersed_T example_cand ! 1) = length example_range"
    by (simp add: example_cand_def example_range_def)
  have z: "\<forall>(t, v) \<in> set (zip example_range (dedispersed_T example_cand ! 1)).
      \<bar>t\<bar> \<le> 200 \<longrightarrow> v = Fin 0"
    by (simp add: example_cand_def example_range_def)
  have o: "\<exists>t \<in> set example_range. 20 < \<bar>t\<bar> \<and> \<bar>t\<bar> \<le> 200"
    by (simp add: example_range_def)
  have w: "filter (\<lambda>t. \<bar>t\<bar> \<le> 200) example_range = example_range"
    by (simp add: example_range_def)
  have n: "replicate (length example_range) NaN = [NaN, NaN, NaN, NaN, NaN]"
    by (simp add: example_range_def numeral_eq_Suc)
  from zero_band_skipped [OF len z o, where ext = converging_fitter and f = 256 and bw = 1
      and df = "[example_row]" and tr = "[]"]
  have "band_snr example_range (dedispersed_T example_cand ! 1) =
     Inr (example_range, [NaN, NaN, NaN, NaN, NaN], NaN) \<and>
   band_step converging_fitter example_cand example_range 256 1 1 [example_row] [] =
     (Inr [example_row], [Running 1, Notice_snr NaN, Notice_too_low NaN])"
    unfolding w n by simp
  with len show ?thesis by simp
qed

theorem zero_band_skipped_counterexample:
  "length (dedispersed_T masked_cand ! 0) = length short_range \<and>
   band_snr short_range (dedispersed_T masked_cand ! 0) = Inl IndexError \<and>
   band_step converging_fitter masked_cand short_range 256 1 0 [] [] =
     (Inl IndexError, [Running 0]) \<and>
   fit_profile converging_fitter masked_cand short_range 256 = (Inl IndexError, [Running 0])"
proof -
  have b: "band_snr short_range (dedispersed_T masked_cand ! 0) = Inl IndexError"
    by (simp add: band_snr_def Let_def np_mean_def fl_sum_def fl_sub_def np_div_def fl_max2_def
        np_quantile_def masked_cand_def short_range_def)
  have s: "band_step converging_fitter masked_cand short_range 256 1 0 [] [] =
     (Inl IndexError, [Running 0])"
    by (simp add: band_step_def Let_def b)
  have l: "[0..<length (dedispersed_T masked_cand)] = [0]"
    by (simp add: masked_cand_def)
  have bw: "chan_freqs masked_cand ! 1 - chan_freqs masked_cand ! 0 = 1"
    by (simp add: masked_cand_def)
  have n: "\<not> length (chan_freqs masked_cand) < 2"
    by (simp add: masked_cand_def)
  have f: "fit_profile converging_fitter masked_cand short_range 256 =
      (Inl IndexError, [Running 0])"
    unfolding fit_profile_def Let_def l bw using n by (simp add: s)
  have "length (dedispersed_T masked_cand ! 0) = length short_range"
    by (simp add: masked_cand_def short_range_def)
  with b s f show ?thesis by (intro conjI)
qed

end
